theory Spec2Isabelle
  imports Complex_Main "HOL-Library.AList"
begin

section \<open>Syntax tree\<close>

text \<open>
  The node kinds that \<open>evaluate_stmt\<close> dispatches on, with the fields the evaluator
  reads from each of them.  A function definition carries its name, its ordered
  parameter names, its optional variadic parameter and its body; a class definition
  carries its name and its method definitions.  \<open>PiIn\<close> takes the element first and
  the container second, \<open>PiSubscript\<close> the collection first and the index second.
\<close>

datatype node =
    PiNumber real
  | PiBool bool
  | PiNone
  | PiString string
  | PiList "node list"
  | PiTuple "node list"
  | PiVariable string
  | PiBinaryOperation node string node
  | PiAssignment string node
  | PiAttributeAssignment node string node
  | PiAttribute node string
  | PiIfThenElse node "node list" "node list"
  | PiNot node
  | PiAnd node node
  | PiOr node node
  | PiWhile node "node list"
  | PiFunctionDef funcdef
  | PiClassDef string "funcdef list"
  | PiReturn node
  | PiFunctionCall node "node list"
  | PiFor string node "node list"
  | PiBreak
  | PiContinue
  | PiIn node node
  | PiSubscript node node
and funcdef =
    FuncDef (fd_name: string) (arg_names: "string list") (vararg: "string option")
      (body: "node list")

section \<open>Runtime values and the store\<close>

text \<open>
  Frames and objects are mutable and shared by reference in the source, so a value
  holds the address of a frame or of an object, and the state holds both stores.
  A class's method table is a dictionary built once and never changed afterwards: it
  is an association list read with \<open>map_of\<close>.  A host primitive is a callable bound
  in the environment; it is represented by its name, and the table that runs it is a
  parameter of the evaluator.
\<close>

type_synonym addr = nat

datatype function_closure =
    FunctionClosure (funcdef: funcdef) (closure_env: addr)

datatype class_def =
    ClassDef (class_name: string) (methods: "(string \<times> function_closure) list")

datatype envvalue =
    VNumber real
  | VBool bool
  | VNone
  | VString string
  | VList "envvalue list"
  | VTuple "envvalue list"
  | VFunctionClosure function_closure
  | VClassDef class_def
  | VObject addr
  | VMethodClosure function_closure addr
  | VPrimitive string

record envframe =
  vars :: "string \<rightharpoonup> envvalue"
  parent :: "addr option"

record vobject =
  class_def :: class_def
  attributes :: "string \<rightharpoonup> envvalue"

record state =
  frames :: "envframe list"
  objects :: "vobject list"

section \<open>Errors, signals and the result of an evaluation\<close>

text \<open>
  Every \<open>raise\<close> of the source is a value.  The kinds of \<open>TypeError\<close> name
  the place that raises it (the source's messages differ in the same way).
\<close>

datatype type_error =
    AttributeAssignmentOnNonObject
  | AttributeAccessOnNonObject
  | CheckTypeFailed
  | InvalidAndOrOperand
  | ForExpectsListOrTuple
  | SubscriptUnsupported
  | InUnsupported
  | MissingInitArgument string
  | MissingMethodArgument string string
  | TooManyMethodArguments
  | MissingFunctionArgument string string
  | TooManyFunctionArguments
  | NotCallable

datatype index_error = ListIndex | TupleIndex | StringIndex

datatype error =
    NameError string
  | TypeError type_error
  | AttributeError string string
  | IndexError index_error
  | PrimitiveError string

text \<open>
  An evaluation ends with a value, with an error, with one of the three control-flow
  exceptions, or it has not ended within the given number of steps
  (\<open>OutOfFuel\<close>).
\<close>

datatype 'a outcome =
    Value 'a
  | Raise error
  | ReturnException envvalue
  | BreakException
  | ContinueException
  | OutOfFuel

type_synonym 'a comp = "state \<Rightarrow> 'a outcome \<times> state"

type_synonym evaluator = "node \<Rightarrow> addr \<Rightarrow> envvalue comp"

type_synonym primitives = "string \<Rightarrow> envvalue list \<Rightarrow> error + envvalue"

definition ret :: "'a \<Rightarrow> 'a comp" where
  "ret v s = (Value v, s)"

definition raise :: "error \<Rightarrow> 'a comp" where
  "raise e s = (Raise e, s)"

text \<open>Sequencing: anything but a value leaves the sequence at once.\<close>

definition bnd :: "'a comp \<Rightarrow> ('a \<Rightarrow> 'b comp) \<Rightarrow> 'b comp" where
  "bnd m f s =
     (case m s of
        (Value v, s') \<Rightarrow> f v s'
      | (Raise e, s') \<Rightarrow> (Raise e, s')
      | (ReturnException v, s') \<Rightarrow> (ReturnException v, s')
      | (BreakException, s') \<Rightarrow> (BreakException, s')
      | (ContinueException, s') \<Rightarrow> (ContinueException, s')
      | (OutOfFuel, s') \<Rightarrow> (OutOfFuel, s'))"

section \<open>Environment frames\<close>

text \<open>
  Modelled from the spec: the module \<open>envframe\<close> (class \<open>EnvFrame\<close> with
  \<open>lookup\<close> and \<open>insert\<close>) is not among the sources.  The spec says that lookup
  resolves to the value bound in the nearest frame, walking outward through the
  parents, and fails with an unresolved-name error if no frame binds the name; and that
  insertion always targets the current frame and overwrites a local binding.
  A frame's parent exists before the frame does, so its address is smaller.
\<close>

function frame_lookup :: "envframe list \<Rightarrow> addr \<Rightarrow> string \<Rightarrow> envvalue option" where
  "frame_lookup fs a nm =
     (if a < length fs then
        (case vars (fs ! a) nm of
           Some v \<Rightarrow> Some v
         | None \<Rightarrow>
            (case parent (fs ! a) of
               None \<Rightarrow> None
             | Some p \<Rightarrow> if p < a then frame_lookup fs p nm else None))
      else None)"
  by pat_completeness auto
termination
  by (relation "measure (\<lambda>(fs, a, nm). a)") auto

declare frame_lookup.simps [simp del]

definition lookup :: "addr \<Rightarrow> string \<Rightarrow> envvalue comp" where
  "lookup env nm s =
     (case frame_lookup (frames s) env nm of
        Some v \<Rightarrow> (Value v, s)
      | None \<Rightarrow> (Raise (NameError nm), s))"

definition frame_insert :: "addr \<Rightarrow> string \<Rightarrow> envvalue \<Rightarrow> state \<Rightarrow> state" where
  "frame_insert env nm v s =
     s\<lparr>frames := (frames s)[env := (frames s ! env)\<lparr>vars := (vars (frames s ! env))(nm \<mapsto> v)\<rparr>]\<rparr>"

definition insert_env :: "addr \<Rightarrow> string \<Rightarrow> envvalue \<Rightarrow> unit comp" where
  "insert_env env nm v s = (Value (), frame_insert env nm v s)"

text \<open>\<open>EnvFrame(parent=p)\<close>: a new empty frame, at the next free address.\<close>

definition new_frame :: "addr option \<Rightarrow> addr comp" where
  "new_frame p s =
     (Value (length (frames s)),
      s\<lparr>frames := frames s @ [\<lparr>vars = Map.empty, parent = p\<rparr>]\<rparr>)"

text \<open>\<open>VObject(class_def=cd, attributes={})\<close>: a new object, at the next free address.\<close>

definition new_object :: "class_def \<Rightarrow> addr comp" where
  "new_object cd s =
     (Value (length (objects s)),
      s\<lparr>objects := objects s @ [\<lparr>class_def = cd, attributes = Map.empty\<rparr>]\<rparr>)"

definition set_attribute :: "addr \<Rightarrow> string \<Rightarrow> envvalue \<Rightarrow> unit comp" where
  "set_attribute a attr v s =
     (Value (),
      s\<lparr>objects := (objects s)[a := (objects s ! a)\<lparr>attributes := (attributes (objects s ! a))(attr \<mapsto> v)\<rparr>]\<rparr>)"

section \<open>Helpers on values\<close>

text \<open>
  Modelled from the spec: \<open>check_type\<close> of the module \<open>primitive\<close> is not among the
  sources.  The spec says that a condition must be a Bool and a subscript index a
  Number, and that anything else fails with a type error.
\<close>

definition check_type_VBool :: "envvalue \<Rightarrow> bool comp" where
  "check_type_VBool v = (case v of VBool b \<Rightarrow> ret b | _ \<Rightarrow> raise (TypeError CheckTypeFailed))"

definition check_type_VNumber :: "envvalue \<Rightarrow> real comp" where
  "check_type_VNumber v = (case v of VNumber x \<Rightarrow> ret x | _ \<Rightarrow> raise (TypeError CheckTypeFailed))"

text \<open>\<open>isinstance(obj, VBool | VNumber | VString | VNone | VList | VTuple)\<close>\<close>

fun valid_piandor_type :: "envvalue \<Rightarrow> bool" where
  "valid_piandor_type (VBool b) = True"
| "valid_piandor_type (VNumber x) = True"
| "valid_piandor_type (VString t) = True"
| "valid_piandor_type VNone = True"
| "valid_piandor_type (VList vs) = True"
| "valid_piandor_type (VTuple vs) = True"
| "valid_piandor_type v = False"

definition check_valid_piandor_type :: "envvalue \<Rightarrow> unit comp" where
  "check_valid_piandor_type obj =
     (if \<not> valid_piandor_type obj then raise (TypeError InvalidAndOrOperand) else ret ())"

text \<open>
  The truth value Python gives to the field \<open>value\<close> of an operand that passed
  \<open>check_valid_piandor_type\<close>: a Bool is itself, a Number is true unless it is zero,
  a String, List or Tuple is true unless it is empty, and \<open>None\<close> is false.
\<close>

fun truthy :: "envvalue \<Rightarrow> bool" where
  "truthy (VBool b) = b"
| "truthy (VNumber x) = (x \<noteq> 0)"
| "truthy (VString t) = (t \<noteq> [])"
| "truthy VNone = False"
| "truthy (VList vs) = (vs \<noteq> [])"
| "truthy (VTuple vs) = (vs \<noteq> [])"
| "truthy v = True"

text \<open>Python's \<open>int(x)\<close> on a number: truncation towards zero.\<close>

definition py_int :: "real \<Rightarrow> int" where
  "py_int x = (if 0 \<le> x then \<lfloor>x\<rfloor> else \<lceil>x\<rceil>)"

text \<open>
  Python's \<open>xs[i]\<close> on a sequence of length \<open>n\<close>: position \<open>i\<close> when
  \<open>0 \<le> i < n\<close>, position \<open>n + i\<close> when \<open>-n \<le> i < 0\<close>, and \<open>IndexError\<close>
  (here \<open>None\<close>) otherwise.
\<close>

definition py_index :: "'a list \<Rightarrow> int \<Rightarrow> 'a option" where
  "py_index xs i =
     (let n = int (length xs) in
      if 0 \<le> i \<and> i < n then Some (xs ! nat i)
      else if - n \<le> i \<and> i < 0 then Some (xs ! nat (n + i))
      else None)"

text \<open>Python's \<open>xs[k:]\<close>, where a negative \<open>k\<close> counts from the end.\<close>

definition py_slice_from :: "int \<Rightarrow> 'a list \<Rightarrow> 'a list" where
  "py_slice_from k xs =
     (if k < 0 then drop (nat (int (length xs) + k)) xs else drop (nat k) xs)"

text \<open>Python's \<open>t in u\<close> on strings: \<open>t\<close> occurs in \<open>u\<close> as a contiguous run.\<close>

fun starts_with :: "string \<Rightarrow> string \<Rightarrow> bool" where
  "starts_with [] u = True"
| "starts_with (c # t) [] = False"
| "starts_with (c # t) (d # u) = (c = d \<and> starts_with t u)"

fun str_contains :: "string \<Rightarrow> string \<Rightarrow> bool" where
  "str_contains t [] = (t = [])"
| "str_contains t (d # u) = (starts_with t (d # u) \<or> str_contains t u)"

section \<open>The evaluator\<close>

text \<open>
  \<open>evaluate_stmt\<close> calls itself on the children of a node, and a program may run
  forever, so the recursion is bounded by a number of steps: the body of
  \<open>evaluate_stmt\<close> is written over the evaluator \<open>rec\<close> that it uses for its
  recursive calls, and \<open>evaluate_stmt P (Suc n)\<close> is that body over
  \<open>evaluate_stmt P n\<close>.  \<open>P\<close> is the table of host primitives.
\<close>

text \<open>\<open>[evaluate_stmt(e, env) for e in elements]\<close>, from left to right.\<close>

primrec eval_elements :: "evaluator \<Rightarrow> node list \<Rightarrow> addr \<Rightarrow> envvalue list comp" where
  "eval_elements rec [] env = ret []"
| "eval_elements rec (e # es) env =
     bnd (rec e env) (\<lambda>v. bnd (eval_elements rec es env) (\<lambda>vs. ret (v # vs)))"

text \<open>
  \<open>evaluate\<close> on a list of statements: \<open>last_value\<close> starts as \<open>VNone\<close> and
  is replaced by the value of each statement in turn.  The bodies of functions,
  methods and constructors are run by the same loop.
\<close>

primrec evaluate_from :: "evaluator \<Rightarrow> node list \<Rightarrow> addr \<Rightarrow> envvalue \<Rightarrow> envvalue comp" where
  "evaluate_from rec [] env last_value = ret last_value"
| "evaluate_from rec (stmt # rest) env last_value =
     bnd (rec stmt env) (\<lambda>v. evaluate_from rec rest env v)"

definition evaluate_with :: "evaluator \<Rightarrow> node list \<Rightarrow> addr \<Rightarrow> envvalue comp" where
  "evaluate_with rec stmts env = evaluate_from rec stmts env VNone"

text \<open>
  \<open>_evaluate_while\<close>: the loop \<open>while True\<close>, one step of fuel for each
  round.  \<open>BreakException\<close> and \<open>ContinueException\<close> of the body are caught;
  everything else leaves the loop.
\<close>

primrec while_loop ::
  "nat \<Rightarrow> evaluator \<Rightarrow> node \<Rightarrow> node list \<Rightarrow> addr \<Rightarrow> envvalue \<Rightarrow> envvalue comp" where
  "while_loop 0 rec condition bdy env last_value = (\<lambda>s. (OutOfFuel, s))"
| "while_loop (Suc k) rec condition bdy env last_value =
     bnd (rec condition env) (\<lambda>cond.
     bnd (check_type_VBool cond) (\<lambda>b.
       if \<not> b then ret last_value
       else (\<lambda>s.
         case evaluate_with rec bdy env s of
           (Value v, s') \<Rightarrow> while_loop k rec condition bdy env v s'
         | (BreakException, s') \<Rightarrow> (Value last_value, s')
         | (ContinueException, s') \<Rightarrow> while_loop k rec condition bdy env last_value s'
         | (Raise e, s') \<Rightarrow> (Raise e, s')
         | (ReturnException v, s') \<Rightarrow> (ReturnException v, s')
         | (OutOfFuel, s') \<Rightarrow> (OutOfFuel, s'))))"

definition evaluate_while ::
  "nat \<Rightarrow> evaluator \<Rightarrow> node \<Rightarrow> node list \<Rightarrow> addr \<Rightarrow> envvalue comp" where
  "evaluate_while k rec condition bdy env = while_loop k rec condition bdy env VNone"

text \<open>
  \<open>_evaluate_for\<close>: the loop over the items.  The loop variable is inserted into
  \<open>env\<close> itself, and the body is evaluated in \<open>env\<close>.
\<close>

primrec for_loop ::
  "evaluator \<Rightarrow> string \<Rightarrow> node list \<Rightarrow> addr \<Rightarrow> envvalue list \<Rightarrow> envvalue \<Rightarrow> envvalue comp" where
  "for_loop rec var bdy env [] last_value = ret last_value"
| "for_loop rec var bdy env (item # items) last_value =
     bnd (insert_env env var item) (\<lambda>_ s.
       case evaluate_with rec bdy env s of
         (Value v, s') \<Rightarrow> for_loop rec var bdy env items v s'
       | (BreakException, s') \<Rightarrow> (Value last_value, s')
       | (ContinueException, s') \<Rightarrow> for_loop rec var bdy env items last_value s'
       | (Raise e, s') \<Rightarrow> (Raise e, s')
       | (ReturnException v, s') \<Rightarrow> (ReturnException v, s')
       | (OutOfFuel, s') \<Rightarrow> (OutOfFuel, s'))"

definition evaluate_for :: "evaluator \<Rightarrow> string \<Rightarrow> node \<Rightarrow> node list \<Rightarrow> addr \<Rightarrow> envvalue comp" where
  "evaluate_for rec var iterable bdy env =
     bnd (rec iterable env) (\<lambda>iterable_val.
       case iterable_val of
         VList items \<Rightarrow> for_loop rec var bdy env items VNone
       | VTuple items \<Rightarrow> for_loop rec var bdy env items VNone
       | _ \<Rightarrow> raise (TypeError ForExpectsListOrTuple))"

text \<open>
  \<open>_evaluate_subscript\<close>: both operands are evaluated first; the kind of the
  collection is looked at before the kind of the index.
\<close>

definition evaluate_subscript :: "evaluator \<Rightarrow> node \<Rightarrow> node \<Rightarrow> addr \<Rightarrow> envvalue comp" where
  "evaluate_subscript rec collection index env =
     bnd (rec collection env) (\<lambda>coll.
     bnd (rec index env) (\<lambda>idx.
       case coll of
         VList vs \<Rightarrow>
           bnd (check_type_VNumber idx) (\<lambda>i.
             case py_index vs (py_int i) of
               Some v \<Rightarrow> ret v
             | None \<Rightarrow> raise (IndexError ListIndex))
       | VTuple vs \<Rightarrow>
           bnd (check_type_VNumber idx) (\<lambda>i.
             case py_index vs (py_int i) of
               Some v \<Rightarrow> ret v
             | None \<Rightarrow> raise (IndexError TupleIndex))
       | VString t \<Rightarrow>
           bnd (check_type_VNumber idx) (\<lambda>i.
             case py_index t (py_int i) of
               Some c \<Rightarrow> ret (VString [c])
             | None \<Rightarrow> raise (IndexError StringIndex))
       | _ \<Rightarrow> raise (TypeError SubscriptUnsupported)))"

text \<open>
  \<open>_evaluate_in\<close>: the container is evaluated first, the element second.
  Modelled from the spec: the module \<open>envvalue\<close> is not among the sources; the spec
  says that containment in a List or Tuple is by equality of values, which is the
  equality of \<open>envvalue\<close> here.
\<close>

definition evaluate_in :: "evaluator \<Rightarrow> node \<Rightarrow> node \<Rightarrow> addr \<Rightarrow> envvalue comp" where
  "evaluate_in rec element container env =
     bnd (rec container env) (\<lambda>cont.
     bnd (rec element env) (\<lambda>elem.
       case cont of
         VList vs \<Rightarrow> ret (VBool (elem \<in> set vs))
       | VTuple vs \<Rightarrow> ret (VBool (elem \<in> set vs))
       | VString u \<Rightarrow>
           (case elem of
              VString t \<Rightarrow> ret (VBool (str_contains t u))
            | _ \<Rightarrow> ret (VBool False))
       | _ \<Rightarrow> raise (TypeError InUnsupported)))"

subsection \<open>Calls\<close>

text \<open>
  \<open>for i, arg_name in enumerate(names, ...)\<close>: the parameter at position \<open>i\<close> of
  \<open>names\<close> takes the argument at position \<open>i\<close>; a parameter with no argument raises
  the error \<open>missing\<close> of its name.
\<close>

primrec bind_args ::
  "(string \<Rightarrow> type_error) \<Rightarrow> addr \<Rightarrow> string list \<Rightarrow> nat \<Rightarrow> envvalue list \<Rightarrow> unit comp" where
  "bind_args missing call_env [] i args = ret ()"
| "bind_args missing call_env (arg_name # rest) i args =
     (if i < length args then
        bnd (insert_env call_env arg_name (args ! i)) (\<lambda>_.
          bind_args missing call_env rest (Suc i) args)
      else raise (TypeError (missing arg_name)))"

text \<open>\<open>if len(arg_names) > 0: call_env.insert(arg_names[0], instance)\<close>\<close>

definition bind_receiver :: "addr \<Rightarrow> string list \<Rightarrow> envvalue \<Rightarrow> unit comp" where
  "bind_receiver call_env names instance =
     (if length names > 0 then insert_env call_env (names ! 0) instance else ret ())"

text \<open>\<open>if funcdef.vararg\<close>: a variadic parameter is declared and its name is not empty.\<close>

definition declared_vararg :: "funcdef \<Rightarrow> string option" where
  "declared_vararg fd =
     (case vararg fd of None \<Rightarrow> None | Some nm \<Rightarrow> if nm = [] then None else Some nm)"

text \<open>The body of a function or method: a caught \<open>ReturnException\<close> gives the result.\<close>

definition run_body :: "evaluator \<Rightarrow> node list \<Rightarrow> addr \<Rightarrow> envvalue comp" where
  "run_body rec stmts call_env s =
     (case evaluate_with rec stmts call_env s of
        (ReturnException v, s') \<Rightarrow> (Value v, s')
      | (Value result, s') \<Rightarrow> (Value result, s')
      | (Raise e, s') \<Rightarrow> (Raise e, s')
      | (BreakException, s') \<Rightarrow> (BreakException, s')
      | (ContinueException, s') \<Rightarrow> (ContinueException, s')
      | (OutOfFuel, s') \<Rightarrow> (OutOfFuel, s'))"

text \<open>
  The body of \<open>__init__\<close>: the values of the statements are dropped, and a caught
  \<open>ReturnException\<close> is dropped too.
\<close>

definition run_init_body :: "evaluator \<Rightarrow> node list \<Rightarrow> addr \<Rightarrow> unit comp" where
  "run_init_body rec stmts call_env s =
     (case evaluate_with rec stmts call_env s of
        (ReturnException v, s') \<Rightarrow> (Value (), s')
      | (Value result, s') \<Rightarrow> (Value (), s')
      | (Raise e, s') \<Rightarrow> (Raise e, s')
      | (BreakException, s') \<Rightarrow> (BreakException, s')
      | (ContinueException, s') \<Rightarrow> (ContinueException, s')
      | (OutOfFuel, s') \<Rightarrow> (OutOfFuel, s'))"

text \<open>The branch \<open>callable(func_val)\<close>: a host primitive runs on the argument list.\<close>

definition call_primitive :: "primitives \<Rightarrow> string \<Rightarrow> envvalue list \<Rightarrow> envvalue comp" where
  "call_primitive P p args =
     (case P p args of Inl e \<Rightarrow> raise e | Inr v \<Rightarrow> ret v)"

text \<open>
  Each of the three branches for a class, a bound method and a function first makes the
  frame of the call and binds the parameters in it, and then runs the body in that
  frame.  The first phase does not evaluate anything, so it is written apart from the
  second: \<open>enter_constructor\<close>, \<open>enter_method\<close> and \<open>enter_function\<close> give the
  frame of the call.
\<close>

text \<open>
  The branch \<open>isinstance(func_val, VClassDef)\<close>, when the class has \<open>__init__\<close>:
  the frame, the receiver, the other parameters.  The number of arguments is compared
  with nothing else, and \<open>vararg\<close> is not read.
\<close>

definition enter_constructor :: "function_closure \<Rightarrow> envvalue \<Rightarrow> envvalue list \<Rightarrow> addr comp" where
  "enter_constructor init_method instance args =
     bnd (new_frame (Some (closure_env init_method))) (\<lambda>call_env.
     bnd (bind_receiver call_env (arg_names (funcdef init_method)) instance) (\<lambda>_.
     bnd (bind_args MissingInitArgument call_env
            (drop 1 (arg_names (funcdef init_method))) 0 args) (\<lambda>_.
       ret call_env)))"

definition call_constructor :: "evaluator \<Rightarrow> class_def \<Rightarrow> envvalue list \<Rightarrow> envvalue comp" where
  "call_constructor rec cd args =
     bnd (new_object cd) (\<lambda>instance.
       case map_of (methods cd) ''__init__'' of
         None \<Rightarrow> ret (VObject instance)
       | Some init_method \<Rightarrow>
           bnd (enter_constructor init_method (VObject instance) args) (\<lambda>call_env.
           bnd (run_init_body rec (body (funcdef init_method)) call_env) (\<lambda>_.
             ret (VObject instance))))"

text \<open>The branch \<open>isinstance(func_val, VMethodClosure)\<close>.\<close>

definition enter_method :: "function_closure \<Rightarrow> addr \<Rightarrow> envvalue list \<Rightarrow> addr comp" where
  "enter_method fc instance args =
     (let fd = funcdef fc in
      bnd (new_frame (Some (closure_env fc))) (\<lambda>call_env.
      bnd (bind_receiver call_env (arg_names fd) (VObject instance)) (\<lambda>_.
      bnd (bind_args (MissingMethodArgument (fd_name fd)) call_env
             (drop 1 (arg_names fd)) 0 args) (\<lambda>_.
      bnd (case declared_vararg fd of
             Some va \<Rightarrow>
               insert_env call_env va
                 (VList (py_slice_from (int (length (arg_names fd)) - 1) args))
           | None \<Rightarrow>
               if int (length args) > int (length (arg_names fd)) - 1
               then raise (TypeError TooManyMethodArguments) else ret ()) (\<lambda>_.
        ret call_env)))))"

definition call_method ::
  "evaluator \<Rightarrow> function_closure \<Rightarrow> addr \<Rightarrow> envvalue list \<Rightarrow> envvalue comp" where
  "call_method rec fc instance args =
     bnd (enter_method fc instance args) (\<lambda>call_env.
       run_body rec (body (funcdef fc)) call_env)"

text \<open>The branch \<open>isinstance(func_val, VFunctionClosure)\<close>.\<close>

definition enter_function :: "function_closure \<Rightarrow> envvalue list \<Rightarrow> addr comp" where
  "enter_function fc args =
     (let fd = funcdef fc in
      bnd (new_frame (Some (closure_env fc))) (\<lambda>call_env.
      bnd (bind_args (MissingFunctionArgument (fd_name fd)) call_env (arg_names fd) 0 args) (\<lambda>_.
      bnd (case declared_vararg fd of
             Some va \<Rightarrow>
               insert_env call_env va (VList (py_slice_from (int (length (arg_names fd))) args))
           | None \<Rightarrow>
               if length args > length (arg_names fd)
               then raise (TypeError TooManyFunctionArguments) else ret ()) (\<lambda>_.
        ret call_env))))"

definition call_function :: "evaluator \<Rightarrow> function_closure \<Rightarrow> envvalue list \<Rightarrow> envvalue comp" where
  "call_function rec fc args =
     bnd (enter_function fc args) (\<lambda>call_env.
       run_body rec (body (funcdef fc)) call_env)"

text \<open>\<open>_evaluate_function_call\<close>: the callee first, then the arguments, then the branch.\<close>

definition evaluate_function_call ::
  "primitives \<Rightarrow> evaluator \<Rightarrow> node \<Rightarrow> node list \<Rightarrow> addr \<Rightarrow> envvalue comp" where
  "evaluate_function_call P rec function args env =
     bnd (rec function env) (\<lambda>func_val.
     bnd (eval_elements rec args env) (\<lambda>argv.
       case func_val of
         VPrimitive p \<Rightarrow> call_primitive P p argv
       | VClassDef cd \<Rightarrow> call_constructor rec cd argv
       | VMethodClosure fc instance \<Rightarrow> call_method rec fc instance argv
       | VFunctionClosure fc \<Rightarrow> call_function rec fc argv
       | _ \<Rightarrow> raise (TypeError NotCallable)))"

subsection \<open>The dispatch on the node kind\<close>

text \<open>
  \<open>methods[method.name] = VFunctionClosure(method, class_env)\<close> for each method in
  turn: a later method of the same name replaces the earlier one.
\<close>

definition build_methods :: "addr \<Rightarrow> funcdef list \<Rightarrow> (string \<times> function_closure) list" where
  "build_methods class_env ms =
     foldl (\<lambda>table method. AList.update (fd_name method) (FunctionClosure method class_env) table)
       [] ms"

text \<open>The attribute access on an object: own attributes, then the class's methods.\<close>

definition get_attribute :: "addr \<Rightarrow> string \<Rightarrow> envvalue comp" where
  "get_attribute a attr s =
     (let obj = objects s ! a in
      case attributes obj attr of
        Some v \<Rightarrow> (Value v, s)
      | None \<Rightarrow>
         (case map_of (methods (class_def obj)) attr of
            Some method \<Rightarrow> (Value (VMethodClosure method a), s)
          | None \<Rightarrow> (Raise (AttributeError (class_name (class_def obj)) attr), s)))"

fun evaluate_node :: "primitives \<Rightarrow> nat \<Rightarrow> evaluator \<Rightarrow> node \<Rightarrow> addr \<Rightarrow> envvalue comp" where
  "evaluate_node P n rec (PiNumber x) env = ret (VNumber x)"
| "evaluate_node P n rec (PiBool b) env = ret (VBool b)"
| "evaluate_node P n rec PiNone env = ret VNone"
| "evaluate_node P n rec (PiString t) env = ret (VString t)"
| "evaluate_node P n rec (PiList es) env =
     bnd (eval_elements rec es env) (\<lambda>elements. ret (VList elements))"
| "evaluate_node P n rec (PiTuple es) env =
     bnd (eval_elements rec es env) (\<lambda>elements. ret (VTuple elements))"
| "evaluate_node P n rec (PiVariable nm) env = lookup env nm"
| "evaluate_node P n rec (PiBinaryOperation left operator right) env =
     rec (PiFunctionCall (PiVariable operator) [left, right]) env"
| "evaluate_node P n rec (PiAssignment nm e) env =
     bnd (rec e env) (\<lambda>v. bnd (insert_env env nm v) (\<lambda>_. ret v))"
| "evaluate_node P n rec (PiAttributeAssignment object attr e) env =
     bnd (rec object env) (\<lambda>obj.
       case obj of
         VObject a \<Rightarrow> bnd (rec e env) (\<lambda>v. bnd (set_attribute a attr v) (\<lambda>_. ret v))
       | _ \<Rightarrow> raise (TypeError AttributeAssignmentOnNonObject))"
| "evaluate_node P n rec (PiAttribute object attr) env =
     bnd (rec object env) (\<lambda>obj.
       case obj of
         VObject a \<Rightarrow> get_attribute a attr
       | _ \<Rightarrow> raise (TypeError AttributeAccessOnNonObject))"
| "evaluate_node P n rec (PiIfThenElse condition then_branch else_branch) env =
     bnd (rec condition env) (\<lambda>cond.
     bnd (check_type_VBool cond) (\<lambda>b.
       evaluate_with rec (if b then then_branch else else_branch) env))"
| "evaluate_node P n rec (PiNot e) env =
     bnd (rec e env) (\<lambda>operand.
     bnd (check_valid_piandor_type operand) (\<lambda>_.
       ret (VBool (\<not> truthy operand))))"
| "evaluate_node P n rec (PiAnd l r) env =
     bnd (rec l env) (\<lambda>left.
     bnd (check_valid_piandor_type left) (\<lambda>_.
       if \<not> truthy left then ret left
       else bnd (rec r env) (\<lambda>right.
            bnd (check_valid_piandor_type right) (\<lambda>_. ret right))))"
| "evaluate_node P n rec (PiOr l r) env =
     bnd (rec l env) (\<lambda>left.
     bnd (check_valid_piandor_type left) (\<lambda>_.
       if truthy left then ret left
       else bnd (rec r env) (\<lambda>right.
            bnd (check_valid_piandor_type right) (\<lambda>_. ret right))))"
| "evaluate_node P n rec (PiWhile condition bdy) env = evaluate_while n rec condition bdy env"
| "evaluate_node P n rec (PiFunctionDef fd) env =
     bnd (insert_env env (fd_name fd) (VFunctionClosure (FunctionClosure fd env))) (\<lambda>_.
       ret VNone)"
| "evaluate_node P n rec (PiClassDef nm ms) env =
     bnd (new_frame (Some env)) (\<lambda>class_env.
     bnd (insert_env env nm (VClassDef (ClassDef nm (build_methods class_env ms)))) (\<lambda>_.
       ret VNone))"
| "evaluate_node P n rec (PiReturn e) env =
     bnd (rec e env) (\<lambda>v s. (ReturnException v, s))"
| "evaluate_node P n rec (PiFunctionCall function args) env =
     evaluate_function_call P rec function args env"
| "evaluate_node P n rec (PiFor var iterable bdy) env = evaluate_for rec var iterable bdy env"
| "evaluate_node P n rec PiBreak env = (\<lambda>s. (BreakException, s))"
| "evaluate_node P n rec PiContinue env = (\<lambda>s. (ContinueException, s))"
| "evaluate_node P n rec (PiIn element container) env = evaluate_in rec element container env"
| "evaluate_node P n rec (PiSubscript collection index) env =
     evaluate_subscript rec collection index env"

primrec evaluate_stmt :: "primitives \<Rightarrow> nat \<Rightarrow> evaluator" where
  "evaluate_stmt P 0 = (\<lambda>node env s. (OutOfFuel, s))"
| "evaluate_stmt P (Suc n) = evaluate_node P n (evaluate_stmt P n)"

text \<open>
  \<open>evaluate\<close>, the entry point, on a program (a list of statements); on a single
  statement it is \<open>evaluate_stmt\<close>.
\<close>

definition evaluate :: "primitives \<Rightarrow> nat \<Rightarrow> node list \<Rightarrow> addr \<Rightarrow> envvalue comp" where
  "evaluate P n program env = evaluate_with (evaluate_stmt P n) program env"

section \<open>The initial environment\<close>

text \<open>
  \<open>initial_env\<close>: one frame with no parent, holding the primitives.  The dictionary of
  \<open>get_primitive_dict\<close> is not among the sources; its names are a parameter here.
\<close>

definition initial_env :: "string list \<Rightarrow> state" where
  "initial_env names =
     \<lparr>frames = [\<lparr>vars = map_of (map (\<lambda>p. (p, VPrimitive p)) names), parent = None\<rparr>],
      objects = []\<rparr>"

text \<open>A table with no primitive in it, for the examples.\<close>

definition no_primitives :: primitives where
  "no_primitives p args = Inl (PrimitiveError p)"

section \<open>Notions used to state the properties\<close>

text \<open>The three control-flow exceptions.\<close>

fun is_signal :: "'a outcome \<Rightarrow> bool" where
  "is_signal (ReturnException v) = True"
| "is_signal BreakException = True"
| "is_signal ContinueException = True"
| "is_signal r = False"

text \<open>
  The items of a value that can be subscripted: the elements of a List or Tuple, the
  one-character Strings of a String.
\<close>

fun sequence_items :: "envvalue \<Rightarrow> envvalue list option" where
  "sequence_items (VList vs) = Some vs"
| "sequence_items (VTuple vs) = Some vs"
| "sequence_items (VString t) = Some (map (\<lambda>c. VString [c]) t)"
| "sequence_items v = None"

text \<open>The error of an index out of range, by the kind of the collection.\<close>

fun index_error_of :: "envvalue \<Rightarrow> index_error" where
  "index_error_of (VTuple vs) = TupleIndex"
| "index_error_of (VString t) = StringIndex"
| "index_error_of v = ListIndex"

text \<open>
  The frames of \<open>s'\<close> extend those of \<open>s\<close>: every frame of \<open>s\<close> is still there, at the
  same address, and binds at least the names that it bound in \<open>s\<close>.  A computation
  \<open>extends\<close> when every run of it ends in a state whose frames extend those of the state
  it started in.
\<close>

definition frames_extend :: "state \<Rightarrow> state \<Rightarrow> bool" where
  "frames_extend s s' \<longleftrightarrow>
     length (frames s) \<le> length (frames s')
     \<and> (\<forall>a. a < length (frames s) \<longrightarrow>
           dom (vars (frames s ! a)) \<subseteq> dom (vars (frames s' ! a)))"

definition extends :: "'a comp \<Rightarrow> bool" where
  "extends m \<longleftrightarrow> (\<forall>s r s'. m s = (r, s') \<longrightarrow> frames_extend s s')"

section \<open>Stores for the examples\<close>

text \<open>
  A class \<open>C\<close> with one method \<open>m\<close>, and a store in which the global frame binds
  \<open>o\<close> to an instance of \<open>C\<close> with the attribute \<open>val\<close>, and \<open>k\<close> to a number.
\<close>

definition example_class :: class_def where
  "example_class =
     ClassDef ''C''
       [(''m'', FunctionClosure (FuncDef ''m'' [''self''] None [PiReturn (PiNumber 1)]) 1)]"

definition example_store :: state where
  "example_store =
     \<lparr>frames = [\<lparr>vars = [''o'' \<mapsto> VObject 0, ''k'' \<mapsto> VNumber 5], parent = None\<rparr>,
                \<lparr>vars = Map.empty, parent = Some 0\<rparr>],
      objects = [\<lparr>class_def = example_class, attributes = [''val'' \<mapsto> VNumber 7]\<rparr>]\<rparr>"

text \<open>
  Two constructors: \<open>__init__(self)\<close>, which sets an attribute, and
  \<open>__init__(self, v)\<close>, which sets \<open>self.val = v\<close> and then returns a number.
\<close>

definition init_one_param :: funcdef where
  "init_one_param =
     FuncDef ''__init__'' [''self''] None
       [PiAttributeAssignment (PiVariable ''self'') ''x'' (PiNumber 1)]"

definition init_two_params :: funcdef where
  "init_two_params =
     FuncDef ''__init__'' [''self'', ''v''] None
       [PiAttributeAssignment (PiVariable ''self'') ''val'' (PiVariable ''v''),
        PiReturn (PiNumber 99)]"

text \<open>The store after \<open>class C\<close> with the second constructor has been defined.\<close>

definition class_store :: state where
  "class_store =
     \<lparr>frames =
        [\<lparr>vars = [''C'' \<mapsto> VClassDef
             (ClassDef ''C'' [(''__init__'', FunctionClosure init_two_params 1)])],
          parent = None\<rparr>,
         \<lparr>vars = Map.empty, parent = Some 0\<rparr>],
      objects = []\<rparr>"

text \<open>
  Three functions without parameters, bound in the global frame: \<open>f\<close> returns from
  inside a conditional inside a loop, with statements left in the branch, in the round
  and after the loop; \<open>g\<close> has no \<open>return\<close>; the body of \<open>h\<close> is empty.
\<close>

definition nested_return_function :: funcdef where
  "nested_return_function =
     FuncDef ''f'' [] None
       [PiWhile (PiBool True)
          [PiIfThenElse (PiBool True)
             [PiReturn (PiNumber 1), PiAssignment ''x'' (PiNumber 2)] [],
           PiAssignment ''z'' (PiNumber 5)],
        PiReturn (PiNumber 3)]"

definition function_store :: state where
  "function_store =
     \<lparr>frames =
        [\<lparr>vars = [''f'' \<mapsto> VFunctionClosure (FunctionClosure nested_return_function 0),
                   ''g'' \<mapsto> VFunctionClosure
                      (FunctionClosure (FuncDef ''g'' [] None [PiNumber 4, PiNumber 7]) 0),
                   ''h'' \<mapsto> VFunctionClosure (FunctionClosure (FuncDef ''h'' [] None []) 0)],
          parent = None\<rparr>],
      objects = []\<rparr>"

text \<open>
  Two more functions without parameters: \<open>k\<close> returns from inside a \<open>for\<close> loop, in
  its first round, with a statement after the loop; \<open>w\<close> returns from inside a
  conditional inside a \<open>while\<close> loop, in the second round of the loop.
\<close>

definition return_in_for_function :: funcdef where
  "return_in_for_function =
     FuncDef ''k'' [] None
       [PiFor ''x'' (PiList [PiNumber 1, PiNumber 2]) [PiReturn (PiNumber 5)],
        PiNumber 6]"

definition return_in_second_round_function :: funcdef where
  "return_in_second_round_function =
     FuncDef ''w'' [] None
       [PiAssignment ''c'' (PiBool False),
        PiWhile (PiBool True)
          [PiIfThenElse (PiVariable ''c'') [PiReturn (PiNumber 8)] [],
           PiAssignment ''c'' (PiBool True)],
        PiNumber 9]"

definition loop_store :: state where
  "loop_store =
     \<lparr>frames =
        [\<lparr>vars = [''k'' \<mapsto> VFunctionClosure (FunctionClosure return_in_for_function 0),
                   ''w'' \<mapsto> VFunctionClosure
                      (FunctionClosure return_in_second_round_function 0)],
          parent = None\<rparr>],
      objects = []\<rparr>"

text \<open>A function whose body is \<open>break\<close>, outside any loop.\<close>

definition break_function :: funcdef where
  "break_function = FuncDef ''f'' [] None [PiBreak]"

section \<open>Basic facts\<close>

lemma bnd_Value: "m s = (Value v, s') \<Longrightarrow> bnd m f s = f v s'"
  by (simp add: bnd_def)

lemma bnd_ret [simp]: "bnd (ret v) f = f v"
  by (rule ext) (simp add: bnd_def ret_def)

lemma bnd_raise [simp]: "bnd (raise e) f = raise e"
  by (rule ext) (simp add: bnd_def raise_def)

text \<open>The definitions that a concrete run unfolds.\<close>

lemmas run_defs = evaluate_def evaluate_with_def bnd_def ret_def raise_def lookup_def
  insert_env_def frame_insert_def new_frame_def new_object_def set_attribute_def
  evaluate_function_call_def call_constructor_def enter_constructor_def bind_receiver_def
  run_init_body_def run_body_def call_function_def enter_function_def declared_vararg_def
  build_methods_def initial_env_def frame_lookup.simps

lemma evaluate_from_append_Value:
  "evaluate_from rec pre env lv s = (Value x, s1) \<Longrightarrow>
   evaluate_from rec (pre @ rest) env lv s = evaluate_from rec rest env x s1"
proof (induction pre arbitrary: lv s)
  case Nil
  then show ?case by (simp add: ret_def)
next
  case (Cons p pre)
  then show ?case
    by (auto simp add: bnd_def split: prod.splits outcome.splits)
qed

lemma evaluate_from_signal:
  "rec stmt env s = (r, s') \<Longrightarrow> is_signal r \<Longrightarrow>
   evaluate_from rec (stmt # post) env lv s = (r, s')"
  by (cases r) (simp_all add: bnd_def)

lemma evaluate_Nil: "evaluate P n [] env s = (Value VNone, s)"
  by (simp add: evaluate_def evaluate_with_def ret_def)

lemma lookup_initial_unbound:
  "evaluate_stmt P (Suc n) (PiVariable nm) 0 (initial_env [])
     = (Raise (NameError nm), initial_env [])"
  by (simp add: lookup_def initial_env_def frame_lookup.simps)

lemma literal_values:
  "evaluate_stmt P (Suc n) (PiNumber x) env s = (Value (VNumber x), s)"
  "evaluate_stmt P (Suc n) (PiBool b) env s = (Value (VBool b), s)"
  "evaluate_stmt P (Suc n) (PiString t) env s = (Value (VString t), s)"
  "evaluate_stmt P (Suc n) PiNone env s = (Value VNone, s)"
  by (simp_all add: ret_def)

lemma list_literal_value:
  "evaluate_stmt P (Suc (Suc n)) (PiList [PiNumber a, PiNumber b, PiNumber c]) env s
     = (Value (VList [VNumber a, VNumber b, VNumber c]), s)"
  by (simp add: bnd_def ret_def)

lemma example_store_o:
  "evaluate_stmt P (Suc n) (PiVariable ''o'') 0 example_store = (Value (VObject 0), example_store)"
  by (simp add: lookup_def example_store_def frame_lookup.simps)

lemma example_store_k:
  "evaluate_stmt P (Suc n) (PiVariable ''k'') 0 example_store = (Value (VNumber 5), example_store)"
  by (simp add: lookup_def example_store_def frame_lookup.simps)

subsection \<open>Containment of strings\<close>

lemma starts_with_iff: "starts_with t u \<longleftrightarrow> (\<exists>q. u = t @ q)"
  by (induction t u rule: starts_with.induct) auto

lemma str_contains_iff: "str_contains t u \<longleftrightarrow> (\<exists>p q. u = p @ t @ q)"
proof (induction u)
  case Nil
  then show ?case by simp
next
  case (Cons d u)
  show ?case
  proof
    assume "str_contains t (d # u)"
    then consider "starts_with t (d # u)" | "str_contains t u" by auto
    then show "\<exists>p q. d # u = p @ t @ q"
    proof cases
      case 1
      then obtain q where "d # u = t @ q" by (auto simp: starts_with_iff)
      then have "d # u = [] @ t @ q" by simp
      then show ?thesis by blast
    next
      case 2
      then obtain p q where "u = p @ t @ q" using Cons.IH by auto
      then have "d # u = (d # p) @ t @ q" by simp
      then show ?thesis by blast
    qed
  next
    assume "\<exists>p q. d # u = p @ t @ q"
    then obtain p q where pq: "d # u = p @ t @ q" by blast
    show "str_contains t (d # u)"
    proof (cases p)
      case Nil
      with pq have "starts_with t (d # u)" by (auto simp: starts_with_iff)
      then show ?thesis by simp
    next
      case (Cons c p')
      with pq have "u = p' @ t @ q" by simp
      then have "str_contains t u" using Cons.IH by blast
      then show ?thesis by simp
    qed
  qed
qed

section \<open>Short-circuit evaluation of \<open>and\<close> and \<open>or\<close>\<close>

text \<open>
  Claim C4.  When the left operand of an AND evaluates to a falsy value of an allowed
  kind (Bool, Number, String, None, List, Tuple), the AND returns that value in the state
  the left operand left, whatever the right operand \<open>r\<close> is: \<open>r\<close> is not evaluated.
  In the same way an OR whose left operand is truthy returns it.  A left operand of
  another kind is a type error, and so is a right operand of another kind when it is
  evaluated.
\<close>

theorem and_or_short_circuit:
  "(evaluate_stmt P n l env s = (Value v, s') \<and> valid_piandor_type v \<and> \<not> truthy v \<longrightarrow>
      evaluate_stmt P (Suc n) (PiAnd l r) env s = (Value v, s'))
   \<and> (evaluate_stmt P n l env s = (Value v, s') \<and> valid_piandor_type v \<and> truthy v \<longrightarrow>
      evaluate_stmt P (Suc n) (PiOr l r) env s = (Value v, s'))
   \<and> (evaluate_stmt P n l env s = (Value v, s') \<and> \<not> valid_piandor_type v \<longrightarrow>
      evaluate_stmt P (Suc n) (PiAnd l r) env s = (Raise (TypeError InvalidAndOrOperand), s')
      \<and> evaluate_stmt P (Suc n) (PiOr l r) env s = (Raise (TypeError InvalidAndOrOperand), s'))
   \<and> (evaluate_stmt P n l env s = (Value v, s') \<and> valid_piandor_type v
        \<and> evaluate_stmt P n r env s' = (Value w, s'') \<and> \<not> valid_piandor_type w \<longrightarrow>
      (truthy v \<longrightarrow>
         evaluate_stmt P (Suc n) (PiAnd l r) env s = (Raise (TypeError InvalidAndOrOperand), s''))
      \<and> (\<not> truthy v \<longrightarrow>
         evaluate_stmt P (Suc n) (PiOr l r) env s = (Raise (TypeError InvalidAndOrOperand), s'')))"
  by (simp add: bnd_Value check_valid_piandor_type_def ret_def raise_def)

text \<open>
  \<open>False and undefined\<close> is \<open>False\<close> and \<open>3 or undefined\<close> is \<open>3\<close>, although
  \<open>undefined\<close> alone is an unresolved name; a primitive as an operand is a type error.
\<close>

theorem and_or_short_circuit_witness:
  "evaluate_stmt no_primitives (Suc (Suc 0)) (PiAnd (PiBool False) (PiVariable ''undefined'')) 0
        (initial_env [])
     = (Value (VBool False), initial_env [])
   \<and> evaluate_stmt no_primitives (Suc (Suc 0)) (PiOr (PiNumber 3) (PiVariable ''undefined'')) 0
        (initial_env [])
     = (Value (VNumber 3), initial_env [])
   \<and> evaluate_stmt no_primitives (Suc 0) (PiVariable ''undefined'') 0 (initial_env [])
     = (Raise (NameError ''undefined''), initial_env [])
   \<and> evaluate_stmt no_primitives (Suc (Suc 0))
        (PiAnd (PiVariable ''+'') (PiBool True)) 0 (initial_env [''+''])
     = (Raise (TypeError InvalidAndOrOperand), initial_env [''+''])
   \<and> evaluate_stmt no_primitives (Suc (Suc 0))
        (PiAnd (PiBool True) (PiVariable ''+'')) 0 (initial_env [''+''])
     = (Raise (TypeError InvalidAndOrOperand), initial_env [''+''])"
proof -
  let ?s = "initial_env []"
  let ?t = "initial_env [''+'']"
  let ?P = no_primitives
  have p: "evaluate_stmt ?P (Suc 0) (PiVariable ''+'') 0 ?t = (Value (VPrimitive ''+''), ?t)"
    by (simp add: lookup_def initial_env_def frame_lookup.simps)
  show ?thesis
    using and_or_short_circuit [where P = ?P and n = "Suc 0" and env = 0 and s = ?s
        and l = "PiBool False" and v = "VBool False" and s' = ?s and r = "PiVariable ''undefined''"]
      and_or_short_circuit [where P = ?P and n = "Suc 0" and env = 0 and s = ?s
        and l = "PiNumber 3" and v = "VNumber 3" and s' = ?s and r = "PiVariable ''undefined''"]
      and_or_short_circuit [where P = ?P and n = "Suc 0" and env = 0 and s = ?t
        and l = "PiVariable ''+''" and v = "VPrimitive ''+''" and s' = ?t and r = "PiBool True"]
      and_or_short_circuit [where P = ?P and n = "Suc 0" and env = 0 and s = ?t
        and l = "PiBool True" and v = "VBool True" and s' = ?t and r = "PiVariable ''+''"
        and w = "VPrimitive ''+''" and s'' = ?t]
      p literal_values [of ?P 0] lookup_initial_unbound [of ?P 0 "''undefined''"]
    by simp
qed

section \<open>Attribute access\<close>

text \<open>
  Claim C6.  Once the object expression has a value: a value that is not an Object is a
  type error; otherwise the instance's own attributes are looked at first; otherwise a
  method of the class of that name gives a MethodClosure of the method and the instance;
  otherwise the access is an attribute error that names the class.  In each case the
  state is the one the object expression left: nothing is stored in the instance, so the
  next access to a method makes the MethodClosure again.
\<close>

theorem attribute_access:
  assumes "evaluate_stmt P n obj env s = (Value v, s')"
  shows "((\<forall>a. v \<noteq> VObject a) \<longrightarrow>
            evaluate_stmt P (Suc n) (PiAttribute obj attr) env s
              = (Raise (TypeError AttributeAccessOnNonObject), s'))
       \<and> (v = VObject a \<and> attributes (objects s' ! a) attr = Some x \<longrightarrow>
            evaluate_stmt P (Suc n) (PiAttribute obj attr) env s = (Value x, s'))
       \<and> (v = VObject a \<and> attributes (objects s' ! a) attr = None
            \<and> map_of (methods (class_def (objects s' ! a))) attr = Some m \<longrightarrow>
            evaluate_stmt P (Suc n) (PiAttribute obj attr) env s
              = (Value (VMethodClosure m a), s'))
       \<and> (v = VObject a \<and> attributes (objects s' ! a) attr = None
            \<and> map_of (methods (class_def (objects s' ! a))) attr = None \<longrightarrow>
            evaluate_stmt P (Suc n) (PiAttribute obj attr) env s
              = (Raise (AttributeError (class_name (class_def (objects s' ! a))) attr), s'))"
  using assms
  by (cases v) (simp_all add: bnd_Value raise_def get_attribute_def Let_def)

theorem attribute_access_witness:
  "evaluate_stmt no_primitives (Suc (Suc 0)) (PiAttribute (PiVariable ''o'') ''val'') 0 example_store
     = (Value (VNumber 7), example_store)
   \<and> evaluate_stmt no_primitives (Suc (Suc 0)) (PiAttribute (PiVariable ''o'') ''m'') 0 example_store
     = (Value (VMethodClosure
          (FunctionClosure (FuncDef ''m'' [''self''] None [PiReturn (PiNumber 1)]) 1) 0),
        example_store)
   \<and> evaluate_stmt no_primitives (Suc (Suc 0)) (PiAttribute (PiVariable ''o'') ''size'') 0
        example_store
     = (Raise (AttributeError ''C'' ''size''), example_store)
   \<and> evaluate_stmt no_primitives (Suc (Suc 0)) (PiAttribute (PiVariable ''k'') ''val'') 0
        example_store
     = (Raise (TypeError AttributeAccessOnNonObject), example_store)"
proof -
  note o = example_store_o [of no_primitives 0]
  note k = example_store_k [of no_primitives 0]
  have a: "attributes (objects example_store ! 0) ''val'' = Some (VNumber 7)"
    by (simp add: example_store_def)
  have b: "attributes (objects example_store ! 0) ''m'' = None"
    "map_of (methods (class_def (objects example_store ! 0))) ''m''
       = Some (FunctionClosure (FuncDef ''m'' [''self''] None [PiReturn (PiNumber 1)]) 1)"
    by (simp_all add: example_store_def example_class_def)
  have c: "attributes (objects example_store ! 0) ''size'' = None"
    "map_of (methods (class_def (objects example_store ! 0))) ''size'' = None"
    "class_name (class_def (objects example_store ! 0)) = ''C''"
    by (simp_all add: example_store_def example_class_def)
  show ?thesis
    using attribute_access [OF o, where a = 0 and attr = "''val''" and x = "VNumber 7"]
      attribute_access [OF o, where a = 0 and attr = "''m''"
        and m = "FunctionClosure (FuncDef ''m'' [''self''] None [PiReturn (PiNumber 1)]) 1"]
      attribute_access [OF o, where a = 0 and attr = "''size''"]
      attribute_access [OF k, where attr = "''val''"]
      a b c
    by simp
qed

section \<open>Subscripts\<close>

text \<open>
  Claim C7.  Once the collection and the index have values: a collection that is not a
  List, Tuple or String is a type error, and so is an index that is not a Number; an index
  whose integer part \<open>int(idx.value)\<close> is from 0 up to the length gives the item at
  that position (for a String, the String of that one character); an index at or beyond
  the length is the index error of the collection's kind.
\<close>

theorem subscript_rule:
  assumes "evaluate_stmt P n c env s = (Value cv, s1)"
    and "evaluate_stmt P n i env s1 = (Value iv, s2)"
  shows "(sequence_items cv = None \<longrightarrow>
            evaluate_stmt P (Suc n) (PiSubscript c i) env s
              = (Raise (TypeError SubscriptUnsupported), s2))
       \<and> (sequence_items cv \<noteq> None \<and> (\<forall>k. iv \<noteq> VNumber k) \<longrightarrow>
            evaluate_stmt P (Suc n) (PiSubscript c i) env s
              = (Raise (TypeError CheckTypeFailed), s2))
       \<and> (sequence_items cv = Some items \<and> iv = VNumber k
            \<and> 0 \<le> py_int k \<and> py_int k < int (length items) \<longrightarrow>
            evaluate_stmt P (Suc n) (PiSubscript c i) env s
              = (Value (items ! nat (py_int k)), s2))
       \<and> (sequence_items cv = Some items \<and> iv = VNumber k
            \<and> int (length items) \<le> py_int k \<longrightarrow>
            evaluate_stmt P (Suc n) (PiSubscript c i) env s
              = (Raise (IndexError (index_error_of cv)), s2))"
  using assms
  by (cases cv; cases iv)
     (auto simp add: evaluate_subscript_def bnd_Value ret_def raise_def check_type_VNumber_def
        py_index_def Let_def)

text \<open>
  \<open>[10, 20, 30][2]\<close> is \<open>30\<close>, \<open>[10, 20, 30][3]\<close> is an index error,
  \<open>"abc"[1]\<close> is \<open>"b"\<close>; \<open>True[1]\<close> and \<open>"abc"[None]\<close> are type errors.
\<close>

theorem subscript_rule_witness:
  "evaluate_stmt no_primitives (Suc (Suc (Suc 0)))
      (PiSubscript (PiList [PiNumber 10, PiNumber 20, PiNumber 30]) (PiNumber 2)) 0 (initial_env [])
     = (Value (VNumber 30), initial_env [])
   \<and> evaluate_stmt no_primitives (Suc (Suc (Suc 0)))
        (PiSubscript (PiList [PiNumber 10, PiNumber 20, PiNumber 30]) (PiNumber 3)) 0
        (initial_env [])
     = (Raise (IndexError ListIndex), initial_env [])
   \<and> evaluate_stmt no_primitives (Suc (Suc 0)) (PiSubscript (PiString ''abc'') (PiNumber 1)) 0
        (initial_env [])
     = (Value (VString ''b''), initial_env [])
   \<and> evaluate_stmt no_primitives (Suc (Suc 0)) (PiSubscript (PiBool True) (PiNumber 1)) 0
        (initial_env [])
     = (Raise (TypeError SubscriptUnsupported), initial_env [])
   \<and> evaluate_stmt no_primitives (Suc (Suc 0)) (PiSubscript (PiString ''abc'') PiNone) 0
        (initial_env [])
     = (Raise (TypeError CheckTypeFailed), initial_env [])"
proof -
  let ?s = "initial_env []"
  let ?P = no_primitives
  note xs = list_literal_value [of ?P 0 10 20 30 0 ?s]
  have i: "py_int 1 = 1" "py_int 2 = 2" "py_int 3 = 3"
    by (simp_all add: py_int_def)
  show ?thesis
    using subscript_rule [OF xs literal_values(1) [of ?P "Suc 0" 2 0 ?s],
        where items = "[VNumber 10, VNumber 20, VNumber 30]" and k = 2]
      subscript_rule [OF xs literal_values(1) [of ?P "Suc 0" 3 0 ?s],
        where items = "[VNumber 10, VNumber 20, VNumber 30]" and k = 3]
      subscript_rule [OF literal_values(3) [of ?P 0 "''abc''" 0 ?s]
          literal_values(1) [of ?P 0 1 0 ?s],
        where items = "[VString ''a'', VString ''b'', VString ''c'']" and k = 1]
      subscript_rule [OF literal_values(2) [of ?P 0 True 0 ?s]
          literal_values(1) [of ?P 0 1 0 ?s]]
      subscript_rule [OF literal_values(3) [of ?P 0 "''abc''" 0 ?s]
          literal_values(4) [of ?P 0 0 ?s]]
      i
    by simp
qed

text \<open>
  Claim C9.  For a List, Tuple or String of length \<open>n\<close> and a Number index whose
  integer part \<open>j = int(idx.value)\<close> has \<open>-n \<le> j < 0\<close>, the subscript is the item at
  position \<open>n + j\<close>; and the subscript is an index error exactly when \<open>j \<ge> n\<close> or
  \<open>j < -n\<close>.
\<close>

theorem negative_index_wraps:
  assumes "evaluate_stmt P n c env s = (Value cv, s1)"
    and "evaluate_stmt P n i env s1 = (Value (VNumber k), s2)"
    and "sequence_items cv = Some items"
  shows "(- int (length items) \<le> py_int k \<and> py_int k < 0 \<longrightarrow>
            evaluate_stmt P (Suc n) (PiSubscript c i) env s
              = (Value (items ! nat (int (length items) + py_int k)), s2))
       \<and> ((\<exists>e. evaluate_stmt P (Suc n) (PiSubscript c i) env s = (Raise (IndexError e), s2))
            \<longleftrightarrow> int (length items) \<le> py_int k \<or> py_int k < - int (length items))"
  using assms
  by (cases cv)
     (auto simp add: evaluate_subscript_def bnd_Value ret_def raise_def check_type_VNumber_def
        py_index_def Let_def)

text \<open>
  \<open>[10, 20, 30][-1]\<close> is \<open>30\<close>, \<open>[10, 20, 30][-3]\<close> is \<open>10\<close>,
  \<open>"abc"[-2]\<close> is \<open>"b"\<close>, and \<open>[10, 20, 30][-4]\<close> is an index error.
\<close>

theorem negative_index_wraps_witness:
  "evaluate_stmt no_primitives (Suc (Suc (Suc 0)))
      (PiSubscript (PiList [PiNumber 10, PiNumber 20, PiNumber 30]) (PiNumber (- 1))) 0
      (initial_env [])
     = (Value (VNumber 30), initial_env [])
   \<and> evaluate_stmt no_primitives (Suc (Suc (Suc 0)))
        (PiSubscript (PiList [PiNumber 10, PiNumber 20, PiNumber 30]) (PiNumber (- 3))) 0
        (initial_env [])
     = (Value (VNumber 10), initial_env [])
   \<and> evaluate_stmt no_primitives (Suc (Suc 0)) (PiSubscript (PiString ''abc'') (PiNumber (- 2))) 0
        (initial_env [])
     = (Value (VString ''b''), initial_env [])
   \<and> (\<exists>e. evaluate_stmt no_primitives (Suc (Suc (Suc 0)))
        (PiSubscript (PiList [PiNumber 10, PiNumber 20, PiNumber 30]) (PiNumber (- 4))) 0
        (initial_env [])
     = (Raise (IndexError e), initial_env []))"
proof -
  let ?s = "initial_env []"
  let ?P = no_primitives
  note xs = list_literal_value [of ?P 0 10 20 30 0 ?s]
  have i: "py_int (- 1) = - 1" "py_int (- 2) = - 2" "py_int (- 3) = - 3" "py_int (- 4) = - 4"
    by (simp_all add: py_int_def ceiling_eq_iff)
  show ?thesis
    using negative_index_wraps [OF xs literal_values(1) [of ?P "Suc 0" "- 1" 0 ?s],
        where items = "[VNumber 10, VNumber 20, VNumber 30]"]
      negative_index_wraps [OF xs literal_values(1) [of ?P "Suc 0" "- 3" 0 ?s],
        where items = "[VNumber 10, VNumber 20, VNumber 30]"]
      negative_index_wraps [OF literal_values(3) [of ?P 0 "''abc''" 0 ?s]
          literal_values(1) [of ?P 0 "- 2" 0 ?s],
        where items = "[VString ''a'', VString ''b'', VString ''c'']"]
      negative_index_wraps [OF xs literal_values(1) [of ?P "Suc 0" "- 4" 0 ?s],
        where items = "[VNumber 10, VNumber 20, VNumber 30]"]
      i
    by simp
qed

section \<open>Membership tests\<close>

text \<open>
  Claim C8.  Once the container and the element have values: in a List or Tuple the
  result is the Bool that says whether some item equals the element; in a String the
  result is the Bool that says whether the element, a String, occurs in it as a
  contiguous run, and \<open>False\<close> when the element is not a String; and the test is a type
  error exactly when the container is none of List, Tuple, String.
\<close>

theorem membership_test:
  assumes "evaluate_stmt P n c env s = (Value cv, s1)"
    and "evaluate_stmt P n x env s1 = (Value xv, s2)"
  shows "(cv = VList vs \<or> cv = VTuple vs \<longrightarrow>
            evaluate_stmt P (Suc n) (PiIn x c) env s = (Value (VBool (xv \<in> set vs)), s2))
       \<and> (cv = VString u \<and> xv = VString t \<longrightarrow>
            evaluate_stmt P (Suc n) (PiIn x c) env s
              = (Value (VBool (\<exists>p q. u = p @ t @ q)), s2))
       \<and> (cv = VString u \<and> (\<forall>w. xv \<noteq> VString w) \<longrightarrow>
            evaluate_stmt P (Suc n) (PiIn x c) env s = (Value (VBool False), s2))
       \<and> ((\<exists>e. evaluate_stmt P (Suc n) (PiIn x c) env s = (Raise (TypeError e), s2))
            \<longleftrightarrow> (\<forall>ws. cv \<noteq> VList ws) \<and> (\<forall>ws. cv \<noteq> VTuple ws) \<and> (\<forall>w. cv \<noteq> VString w))"
  using assms
  by (cases cv; cases xv)
     (simp_all add: evaluate_in_def bnd_Value ret_def raise_def str_contains_iff)

text \<open>
  \<open>20 in [10, 20, 30]\<close> is true and \<open>"ab" in "xaby"\<close> is true; \<open>1 in "xaby"\<close> is
  false; \<open>1 in 5\<close> is a type error.
\<close>

theorem membership_test_witness:
  "evaluate_stmt no_primitives (Suc (Suc (Suc 0)))
      (PiIn (PiNumber 20) (PiList [PiNumber 10, PiNumber 20, PiNumber 30])) 0 (initial_env [])
     = (Value (VBool True), initial_env [])
   \<and> evaluate_stmt no_primitives (Suc (Suc 0)) (PiIn (PiString ''ab'') (PiString ''xaby'')) 0
        (initial_env [])
     = (Value (VBool True), initial_env [])
   \<and> evaluate_stmt no_primitives (Suc (Suc 0)) (PiIn (PiNumber 1) (PiString ''xaby'')) 0
        (initial_env [])
     = (Value (VBool False), initial_env [])
   \<and> (\<exists>e. evaluate_stmt no_primitives (Suc (Suc 0)) (PiIn (PiNumber 1) (PiNumber 5)) 0
        (initial_env [])
     = (Raise (TypeError e), initial_env []))"
proof -
  let ?s = "initial_env []"
  let ?P = no_primitives
  note xs = list_literal_value [of ?P 0 10 20 30 0 ?s]
  have sub: "\<exists>p q. ''xaby'' = p @ ''ab'' @ q"
  proof -
    have "''xaby'' = ''x'' @ ''ab'' @ ''y''" by simp
    then show ?thesis by blast
  qed
  show ?thesis
    using membership_test [OF xs literal_values(1) [of ?P "Suc 0" 20 0 ?s],
        where vs = "[VNumber 10, VNumber 20, VNumber 30]"]
      membership_test [OF literal_values(3) [of ?P 0 "''xaby''" 0 ?s]
          literal_values(3) [of ?P 0 "''ab''" 0 ?s],
        where u = "''xaby''" and t = "''ab''"]
      membership_test [OF literal_values(3) [of ?P 0 "''xaby''" 0 ?s]
          literal_values(1) [of ?P 0 1 0 ?s],
        where u = "''xaby''"]
      membership_test [OF literal_values(1) [of ?P 0 5 0 ?s]
          literal_values(1) [of ?P 0 1 0 ?s]]
      sub
    by simp
qed

section \<open>Control-flow exceptions that nothing catches\<close>

text \<open>
  An exception of control flow is caught at two places only: \<open>BreakException\<close> and
  \<open>ContinueException\<close> by the loop whose body raised them, \<open>ReturnException\<close> by
  the call whose body raised it.  Everywhere else the construct that was evaluating a
  child ends with the exception of the child, in the state the child left.
\<close>

lemma evaluate_signal:
  assumes "evaluate P n pre env s = (Value x, s1)"
    and "evaluate_stmt P n stmt env s1 = (r, s2)"
    and "is_signal r"
  shows "evaluate P n (pre @ stmt # post) env s = (r, s2)"
proof -
  have "evaluate P n (pre @ stmt # post) env s
      = evaluate_from (evaluate_stmt P n) (stmt # post) env x s1"
    using assms(1) by (simp add: evaluate_def evaluate_with_def evaluate_from_append_Value)
  also have "\<dots> = (r, s2)"
    using assms(2,3) by (rule evaluate_from_signal)
  finally show ?thesis .
qed

lemma if_branch_result:
  assumes "evaluate_stmt P n c env s = (Value (VBool b), s1)"
    and "evaluate P n (if b then t else f) env s1 = (r, s2)"
  shows "evaluate_stmt P (Suc n) (PiIfThenElse c t f) env s = (r, s2)"
  using assms by (simp add: bnd_Value check_type_VBool_def evaluate_def)

lemma body_loop_signal:
  assumes "evaluate P n stmts env s = (r, s')"
    and "r = BreakException \<or> r = ContinueException"
  shows "run_body (evaluate_stmt P n) stmts env s = (r, s')"
    and "fst (run_init_body (evaluate_stmt P n) stmts env s)
           = (if r = BreakException then BreakException else ContinueException)"
  using assms by (auto simp add: run_body_def run_init_body_def evaluate_def)

lemma bnd_signal:
  "m s = (ReturnException v, s') \<Longrightarrow> bnd m f s = (ReturnException v, s')"
  "m s = (BreakException, s') \<Longrightarrow> bnd m f s = (BreakException, s')"
  "m s = (ContinueException, s') \<Longrightarrow> bnd m f s = (ContinueException, s')"
  by (simp_all add: bnd_def)

lemma signal_cases:
  assumes "is_signal r"
  obtains v where "r = ReturnException v" | "r = BreakException" | "r = ContinueException"
  using assms by (cases r) simp_all

lemma no_fuel_no_signal:
  "evaluate_stmt P n c env s = (r, s') \<Longrightarrow> is_signal r \<Longrightarrow> \<exists>m. n = Suc m"
  by (cases n) auto

lemma while_condition_signal:
  assumes c: "evaluate_stmt P n c env s = (r, s')" and r: "is_signal r"
  shows "evaluate_stmt P (Suc n) (PiWhile c b) env s = (r, s')"
proof -
  obtain m where m: "n = Suc m"
    using no_fuel_no_signal [OF c r] by blast
  from r show ?thesis
    by (rule signal_cases) (use c in \<open>simp_all add: m evaluate_while_def bnd_signal\<close>)
qed

lemma first_child_signal:
  assumes c: "evaluate_stmt P n c env s = (r, s')"
    and r: "is_signal r"
    and node: "node \<in> {PiAssignment nm c, PiAttributeAssignment c attr e, PiAttribute c attr,
       PiIfThenElse c t f, PiNot c, PiAnd c e, PiOr c e, PiReturn c, PiFunctionCall c args,
       PiFor var c b, PiIn e c, PiSubscript c e, PiList (c # es), PiTuple (c # es),
       PiWhile c b}"
  shows "evaluate_stmt P (Suc n) node env s = (r, s')"
proof -
  note W = while_condition_signal [OF c r]
  from r show ?thesis
  proof (rule signal_cases)
    fix v assume "r = ReturnException v"
    with c node W show ?thesis
      by (elim insertE emptyE)
        (simp_all add: bnd_signal evaluate_function_call_def evaluate_for_def evaluate_in_def
          evaluate_subscript_def)
  next
    assume "r = BreakException"
    with c node W show ?thesis
      by (elim insertE emptyE)
        (simp_all add: bnd_signal evaluate_function_call_def evaluate_for_def evaluate_in_def
          evaluate_subscript_def)
  next
    assume "r = ContinueException"
    with c node W show ?thesis
      by (elim insertE emptyE)
        (simp_all add: bnd_signal evaluate_function_call_def evaluate_for_def evaluate_in_def
          evaluate_subscript_def)
  qed
qed

lemma eval_elements_append:
  "eval_elements rec pre env s = (Value vs, s1) \<Longrightarrow>
   eval_elements rec (pre @ rest) env s
     = bnd (eval_elements rec rest env) (\<lambda>ws. ret (vs @ ws)) s1"
proof (induction pre arbitrary: vs s)
  case Nil
  then show ?case by (simp add: ret_def bnd_def split: prod.splits outcome.splits)
next
  case (Cons p pre)
  obtain v sa where p: "rec p env s = (Value v, sa)"
    using Cons.prems by (auto simp add: bnd_def split: prod.splits outcome.splits)
  obtain vs' where pre: "eval_elements rec pre env sa = (Value vs', s1)" and vs: "vs = v # vs'"
    using Cons.prems p by (auto simp add: bnd_def ret_def split: prod.splits outcome.splits)
  show ?case
    using Cons.IH [OF pre] p
    by (simp add: vs bnd_def ret_def split: prod.splits outcome.splits)
qed

lemma eval_elements_signal:
  assumes "eval_elements rec pre env s = (Value vs, s1)"
  shows "rec e env s1 = (ReturnException v, s2) \<Longrightarrow>
           eval_elements rec (pre @ e # post) env s = (ReturnException v, s2)"
    and "rec e env s1 = (BreakException, s2) \<Longrightarrow>
           eval_elements rec (pre @ e # post) env s = (BreakException, s2)"
    and "rec e env s1 = (ContinueException, s2) \<Longrightarrow>
           eval_elements rec (pre @ e # post) env s = (ContinueException, s2)"
  by (simp_all add: eval_elements_append [OF assms] bnd_signal)

lemma elements_signal:
  assumes pre: "eval_elements (evaluate_stmt P n) pre env s = (Value vs, s1)"
    and e: "evaluate_stmt P n e env s1 = (r, s2)"
    and r: "is_signal r"
  shows "evaluate_stmt P (Suc n) (PiList (pre @ e # post)) env s = (r, s2)"
    and "evaluate_stmt P (Suc n) (PiTuple (pre @ e # post)) env s = (r, s2)"
  using r e by (auto elim!: signal_cases simp add: eval_elements_signal [OF pre] bnd_signal)

lemma argument_signal:
  assumes fn: "evaluate_stmt P n fn env s0 = (Value fv, s)"
    and pre: "eval_elements (evaluate_stmt P n) pre env s = (Value vs, s1)"
    and e: "evaluate_stmt P n e env s1 = (r, s2)"
    and r: "is_signal r"
  shows "evaluate_stmt P (Suc n) (PiFunctionCall fn (pre @ e # post)) env s0 = (r, s2)"
  using r e
  by (auto elim!: signal_cases
      simp add: evaluate_function_call_def bnd_Value [where m = "evaluate_stmt P n fn env", OF fn]
        eval_elements_signal [OF pre] bnd_signal)

lemma second_child_signal:
  assumes a: "evaluate_stmt P n a env s = (Value av, s1)"
    and b: "evaluate_stmt P n b env s1 = (r, s2)"
    and r: "is_signal r"
  shows "av = VObject obj \<Longrightarrow>
           evaluate_stmt P (Suc n) (PiAttributeAssignment a attr b) env s = (r, s2)"
    and "valid_piandor_type av \<Longrightarrow> truthy av \<Longrightarrow>
           evaluate_stmt P (Suc n) (PiAnd a b) env s = (r, s2)"
    and "valid_piandor_type av \<Longrightarrow> \<not> truthy av \<Longrightarrow>
           evaluate_stmt P (Suc n) (PiOr a b) env s = (r, s2)"
    and "evaluate_stmt P (Suc n) (PiIn b a) env s = (r, s2)"
    and "evaluate_stmt P (Suc n) (PiSubscript a b) env s = (r, s2)"
  using r b
  by (auto elim!: signal_cases
      simp add: bnd_Value [where m = "evaluate_stmt P n a env", OF a] bnd_signal
        check_valid_piandor_type_def evaluate_in_def evaluate_subscript_def)

lemma binary_operation_is_call:
  "evaluate_stmt P (Suc n) (PiBinaryOperation l operator r) env
     = evaluate_stmt P n (PiFunctionCall (PiVariable operator) [l, r]) env"
  by simp


lemma while_round_next:
  assumes "evaluate_stmt P n c env s = (Value (VBool True), s1)"
  shows "evaluate P n bdy env s1 = (Value x, s2) \<Longrightarrow>
           while_loop (Suc k) (evaluate_stmt P n) c bdy env lv s
             = while_loop k (evaluate_stmt P n) c bdy env x s2"
    and "evaluate P n bdy env s1 = (ContinueException, s2) \<Longrightarrow>
           while_loop (Suc k) (evaluate_stmt P n) c bdy env lv s
             = while_loop k (evaluate_stmt P n) c bdy env lv s2"
  using assms by (simp_all add: bnd_Value check_type_VBool_def evaluate_def)

lemma for_round_return:
  assumes "evaluate P n bdy env (frame_insert env var item s) = (ReturnException v, s2)"
  shows "for_loop (evaluate_stmt P n) var bdy env (item # items) lv s = (ReturnException v, s2)"
  using assms by (simp add: bnd_def insert_env_def evaluate_def)

lemma for_round_next:
  shows "evaluate P n bdy env (frame_insert env var item s) = (Value x, s2) \<Longrightarrow>
           for_loop (evaluate_stmt P n) var bdy env (item # items) lv s
             = for_loop (evaluate_stmt P n) var bdy env items x s2"
    and "evaluate P n bdy env (frame_insert env var item s) = (ContinueException, s2) \<Longrightarrow>
           for_loop (evaluate_stmt P n) var bdy env (item # items) lv s
             = for_loop (evaluate_stmt P n) var bdy env items lv s2"
  by (simp_all add: bnd_def insert_env_def evaluate_def)

lemma for_entry:
  assumes "evaluate_stmt P n it env s = (Value iv, s0)"
    and "iv = VList xs \<or> iv = VTuple xs"
  shows "evaluate_stmt P (Suc n) (PiFor var it bdy) env s
           = for_loop (evaluate_stmt P n) var bdy env xs VNone s0"
  using assms by (auto simp add: evaluate_for_def bnd_Value)

lemma while_entry:
  "evaluate_stmt P (Suc n) (PiWhile c bdy) env s
     = while_loop n (evaluate_stmt P n) c bdy env VNone s"
  by (simp add: evaluate_while_def)

lemma function_call_signal:
  assumes "evaluate_stmt P n fn env s = (Value (VFunctionClosure fc), s1)"
    and "eval_elements (evaluate_stmt P n) args env s1 = (Value argv, s2)"
    and "enter_function fc argv s2 = (Value call_env, s3)"
    and "evaluate P n (body (funcdef fc)) call_env s3 = (r, s4)"
    and "r = BreakException \<or> r = ContinueException"
  shows "evaluate_stmt P (Suc n) (PiFunctionCall fn args) env s = (r, s4)"
  using assms
  by (auto simp add: evaluate_function_call_def bnd_Value call_function_def run_body_def
      evaluate_def)

lemma method_call_signal:
  assumes "evaluate_stmt P n fn env s = (Value (VMethodClosure fc inst), s1)"
    and "eval_elements (evaluate_stmt P n) args env s1 = (Value argv, s2)"
    and "enter_method fc inst argv s2 = (Value call_env, s3)"
    and "evaluate P n (body (funcdef fc)) call_env s3 = (r, s4)"
    and "r = BreakException \<or> r = ContinueException"
  shows "evaluate_stmt P (Suc n) (PiFunctionCall fn args) env s = (r, s4)"
  using assms
  by (auto simp add: evaluate_function_call_def bnd_Value call_method_def run_body_def
      evaluate_def)

lemma constructor_call_signal:
  assumes "evaluate_stmt P n fn env s = (Value (VClassDef cd), s1)"
    and "eval_elements (evaluate_stmt P n) args env s1 = (Value argv, s2)"
    and "map_of (methods cd) ''__init__'' = Some init_method"
    and "new_object cd s2 = (Value inst, s2')"
    and "enter_constructor init_method (VObject inst) argv s2' = (Value call_env, s3)"
    and "evaluate P n (body (funcdef init_method)) call_env s3 = (r, s4)"
    and "r = BreakException \<or> r = ContinueException"
  shows "evaluate_stmt P (Suc n) (PiFunctionCall fn args) env s = (r, s4)"
  using assms
  by (auto simp add: evaluate_function_call_def bnd_Value call_constructor_def run_init_body_def
      evaluate_def bnd_signal)

lemma while_round_return:
  assumes "evaluate_stmt P n c env s = (Value (VBool True), s1)"
    and "evaluate P n bdy env s1 = (ReturnException v, s2)"
  shows "while_loop (Suc k) (evaluate_stmt P n) c bdy env lv s = (ReturnException v, s2)"
  using assms by (simp add: bnd_Value check_type_VBool_def evaluate_def)

lemma while_loop_condition_signal:
  assumes c: "evaluate_stmt P n c env s = (r, s')" and r: "is_signal r"
  shows "while_loop (Suc k) (evaluate_stmt P n) c bdy env lv s = (r, s')"
  using r c by (auto elim!: signal_cases simp add: bnd_signal)

text \<open>
  Claim C10.  \<open>break\<close> and \<open>continue\<close> evaluate to their exception and \<open>return\<close> to
  the exception with the value.  Such an exception raised by a statement of a program is
  the outcome of \<open>evaluate\<close> on the program, in the state where it was raised: it is
  not dropped and it is not turned into an error.  On the way out it passes every
  construct that is not its handler.  It passes a conditional, from the condition and
  from the branch.  It passes every node from the child that is evaluated first, and
  from the child that is evaluated second once the first has a value: the assignments,
  the attribute access, \<open>not\<close>, \<open>and\<close>, \<open>or\<close>, \<open>in\<close>, a subscript, \<open>return\<close>, the
  elements of a List or Tuple, the callee and the arguments of a call; a binary
  operation is the call of its operator.  It passes a loop from the condition or the
  sequence looped over, and \<open>ReturnException\<close> passes a loop from the body, in any
  round: a round that ends with a value or with \<open>ContinueException\<close> is followed by
  the loop on what is left.  \<open>BreakException\<close> and \<open>ContinueException\<close> pass the
  call of a function, of a method and of a constructor from the body, since only
  \<open>ReturnException\<close> is caught there.
\<close>

theorem uncaught_signal:
  "evaluate_stmt P (Suc n) PiBreak env s = (BreakException, s)
   \<and> evaluate_stmt P (Suc n) PiContinue env s = (ContinueException, s)
   \<and> (evaluate_stmt P n e env s = (Value v, s') \<longrightarrow>
        evaluate_stmt P (Suc n) (PiReturn e) env s = (ReturnException v, s'))
   \<and> (evaluate P n pre env s = (Value x, s1) \<and> evaluate_stmt P n stmt env s1 = (r, s2)
        \<and> is_signal r \<longrightarrow>
        evaluate P n (pre @ stmt # post) env s = (r, s2))
   \<and> (evaluate_stmt P n c env s = (Value (VBool b), s1)
        \<and> evaluate P n (if b then t else f) env s1 = (r, s2) \<and> is_signal r \<longrightarrow>
        evaluate_stmt P (Suc n) (PiIfThenElse c t f) env s = (r, s2))
   \<and> (evaluate P n stmts env s = (r, s') \<and> (r = BreakException \<or> r = ContinueException) \<longrightarrow>
        run_body (evaluate_stmt P n) stmts env s = (r, s')
        \<and> fst (run_init_body (evaluate_stmt P n) stmts env s)
            = (if r = BreakException then BreakException else ContinueException))
   \<and> (evaluate_stmt P n c env s = (r, s') \<and> is_signal r
        \<and> node \<in> {PiAssignment nm c, PiAttributeAssignment c attr e, PiAttribute c attr,
             PiIfThenElse c t f, PiNot c, PiAnd c e, PiOr c e, PiReturn c,
             PiFunctionCall c args, PiFor var c bdy, PiIn e c, PiSubscript c e,
             PiList (c # es), PiTuple (c # es), PiWhile c bdy} \<longrightarrow>
        evaluate_stmt P (Suc n) node env s = (r, s'))
   \<and> (evaluate_stmt P n a env s = (Value av, s1) \<and> evaluate_stmt P n d env s1 = (r, s2)
        \<and> is_signal r \<longrightarrow>
        (av = VObject obj \<longrightarrow>
           evaluate_stmt P (Suc n) (PiAttributeAssignment a attr d) env s = (r, s2))
        \<and> (valid_piandor_type av \<and> truthy av \<longrightarrow>
           evaluate_stmt P (Suc n) (PiAnd a d) env s = (r, s2))
        \<and> (valid_piandor_type av \<and> \<not> truthy av \<longrightarrow>
           evaluate_stmt P (Suc n) (PiOr a d) env s = (r, s2))
        \<and> evaluate_stmt P (Suc n) (PiIn d a) env s = (r, s2)
        \<and> evaluate_stmt P (Suc n) (PiSubscript a d) env s = (r, s2))
   \<and> (eval_elements (evaluate_stmt P n) es env s = (Value vs, s1)
        \<and> evaluate_stmt P n d env s1 = (r, s2) \<and> is_signal r \<longrightarrow>
        evaluate_stmt P (Suc n) (PiList (es @ d # post)) env s = (r, s2)
        \<and> evaluate_stmt P (Suc n) (PiTuple (es @ d # post)) env s = (r, s2))
   \<and> (evaluate_stmt P n fn env s0 = (Value fv, s)
        \<and> eval_elements (evaluate_stmt P n) es env s = (Value vs, s1)
        \<and> evaluate_stmt P n d env s1 = (r, s2) \<and> is_signal r \<longrightarrow>
        evaluate_stmt P (Suc n) (PiFunctionCall fn (es @ d # post)) env s0 = (r, s2))
   \<and> evaluate_stmt P (Suc n) (PiBinaryOperation a operator d) env
        = evaluate_stmt P n (PiFunctionCall (PiVariable operator) [a, d]) env
   \<and> evaluate_stmt P (Suc n) (PiWhile c bdy) env s
        = while_loop n (evaluate_stmt P n) c bdy env VNone s
   \<and> (evaluate_stmt P n c env s = (r, s') \<and> is_signal r \<longrightarrow>
        while_loop (Suc k) (evaluate_stmt P n) c bdy env lv s = (r, s'))
   \<and> (evaluate_stmt P n c env s = (Value (VBool True), s1) \<longrightarrow>
        (evaluate P n bdy env s1 = (ReturnException v, s2) \<longrightarrow>
           while_loop (Suc k) (evaluate_stmt P n) c bdy env lv s = (ReturnException v, s2))
        \<and> (evaluate P n bdy env s1 = (Value x, s2) \<longrightarrow>
           while_loop (Suc k) (evaluate_stmt P n) c bdy env lv s
             = while_loop k (evaluate_stmt P n) c bdy env x s2)
        \<and> (evaluate P n bdy env s1 = (ContinueException, s2) \<longrightarrow>
           while_loop (Suc k) (evaluate_stmt P n) c bdy env lv s
             = while_loop k (evaluate_stmt P n) c bdy env lv s2))
   \<and> (evaluate_stmt P n c env s = (Value iv, s1) \<and> (iv = VList items \<or> iv = VTuple items) \<longrightarrow>
        evaluate_stmt P (Suc n) (PiFor var c bdy) env s
          = for_loop (evaluate_stmt P n) var bdy env items VNone s1)
   \<and> (evaluate P n bdy env (frame_insert env var item s) = (ReturnException v, s2) \<longrightarrow>
        for_loop (evaluate_stmt P n) var bdy env (item # items) lv s = (ReturnException v, s2))
   \<and> (evaluate P n bdy env (frame_insert env var item s) = (Value x, s2) \<longrightarrow>
        for_loop (evaluate_stmt P n) var bdy env (item # items) lv s
          = for_loop (evaluate_stmt P n) var bdy env items x s2)
   \<and> (evaluate P n bdy env (frame_insert env var item s) = (ContinueException, s2) \<longrightarrow>
        for_loop (evaluate_stmt P n) var bdy env (item # items) lv s
          = for_loop (evaluate_stmt P n) var bdy env items lv s2)
   \<and> (evaluate_stmt P n fn env s = (Value (VFunctionClosure fc), s1)
        \<and> eval_elements (evaluate_stmt P n) args env s1 = (Value argv, s2)
        \<and> enter_function fc argv s2 = (Value call_env, s3)
        \<and> evaluate P n (body (funcdef fc)) call_env s3 = (r, s4)
        \<and> (r = BreakException \<or> r = ContinueException) \<longrightarrow>
        evaluate_stmt P (Suc n) (PiFunctionCall fn args) env s = (r, s4))
   \<and> (evaluate_stmt P n fn env s = (Value (VMethodClosure fc inst), s1)
        \<and> eval_elements (evaluate_stmt P n) args env s1 = (Value argv, s2)
        \<and> enter_method fc inst argv s2 = (Value call_env, s3)
        \<and> evaluate P n (body (funcdef fc)) call_env s3 = (r, s4)
        \<and> (r = BreakException \<or> r = ContinueException) \<longrightarrow>
        evaluate_stmt P (Suc n) (PiFunctionCall fn args) env s = (r, s4))
   \<and> (evaluate_stmt P n fn env s = (Value (VClassDef cd), s1)
        \<and> eval_elements (evaluate_stmt P n) args env s1 = (Value argv, s2)
        \<and> map_of (methods cd) ''__init__'' = Some fc
        \<and> new_object cd s2 = (Value inst, s2')
        \<and> enter_constructor fc (VObject inst) argv s2' = (Value call_env, s3)
        \<and> evaluate P n (body (funcdef fc)) call_env s3 = (r, s4)
        \<and> (r = BreakException \<or> r = ContinueException) \<longrightarrow>
        evaluate_stmt P (Suc n) (PiFunctionCall fn args) env s = (r, s4))"
proof -
  have 1: "evaluate_stmt P (Suc n) PiBreak env s = (BreakException, s)" by simp
  have 2: "evaluate_stmt P (Suc n) PiContinue env s = (ContinueException, s)" by simp
  have 3: "evaluate_stmt P n e env s = (Value v, s') \<longrightarrow>
        evaluate_stmt P (Suc n) (PiReturn e) env s = (ReturnException v, s')"
    by (simp add: bnd_Value)
  have 4: "evaluate P n pre env s = (Value x, s1) \<and> evaluate_stmt P n stmt env s1 = (r, s2)
        \<and> is_signal r \<longrightarrow>
        evaluate P n (pre @ stmt # post) env s = (r, s2)"
    using evaluate_signal by blast
  have 5: "evaluate_stmt P n c env s = (Value (VBool b), s1)
        \<and> evaluate P n (if b then t else f) env s1 = (r, s2) \<and> is_signal r \<longrightarrow>
        evaluate_stmt P (Suc n) (PiIfThenElse c t f) env s = (r, s2)"
    using if_branch_result by blast
  have 6: "evaluate P n stmts env s = (r, s') \<and> (r = BreakException \<or> r = ContinueException) \<longrightarrow>
        run_body (evaluate_stmt P n) stmts env s = (r, s')
        \<and> fst (run_init_body (evaluate_stmt P n) stmts env s)
            = (if r = BreakException then BreakException else ContinueException)"
    using body_loop_signal by blast
  have 7: "evaluate_stmt P n c env s = (r, s') \<and> is_signal r
        \<and> node \<in> {PiAssignment nm c, PiAttributeAssignment c attr e, PiAttribute c attr,
             PiIfThenElse c t f, PiNot c, PiAnd c e, PiOr c e, PiReturn c,
             PiFunctionCall c args, PiFor var c bdy, PiIn e c, PiSubscript c e,
             PiList (c # es), PiTuple (c # es), PiWhile c bdy} \<longrightarrow>
        evaluate_stmt P (Suc n) node env s = (r, s')"
    using first_child_signal by blast
  have 8: "evaluate_stmt P n a env s = (Value av, s1) \<and> evaluate_stmt P n d env s1 = (r, s2)
        \<and> is_signal r \<longrightarrow>
        (av = VObject obj \<longrightarrow>
           evaluate_stmt P (Suc n) (PiAttributeAssignment a attr d) env s = (r, s2))
        \<and> (valid_piandor_type av \<and> truthy av \<longrightarrow>
           evaluate_stmt P (Suc n) (PiAnd a d) env s = (r, s2))
        \<and> (valid_piandor_type av \<and> \<not> truthy av \<longrightarrow>
           evaluate_stmt P (Suc n) (PiOr a d) env s = (r, s2))
        \<and> evaluate_stmt P (Suc n) (PiIn d a) env s = (r, s2)
        \<and> evaluate_stmt P (Suc n) (PiSubscript a d) env s = (r, s2)"
    using second_child_signal [where P = P and n = n and a = a and env = env and s = s
        and av = av and ?s1.0 = s1 and b = d and r = r and ?s2.0 = s2]
    by blast
  have 9: "eval_elements (evaluate_stmt P n) es env s = (Value vs, s1)
        \<and> evaluate_stmt P n d env s1 = (r, s2) \<and> is_signal r \<longrightarrow>
        evaluate_stmt P (Suc n) (PiList (es @ d # post)) env s = (r, s2)
        \<and> evaluate_stmt P (Suc n) (PiTuple (es @ d # post)) env s = (r, s2)"
    by (intro impI conjI; (elim conjE)?) (rule elements_signal; assumption)+
  have 10: "evaluate_stmt P n fn env s0 = (Value fv, s)
        \<and> eval_elements (evaluate_stmt P n) es env s = (Value vs, s1)
        \<and> evaluate_stmt P n d env s1 = (r, s2) \<and> is_signal r \<longrightarrow>
        evaluate_stmt P (Suc n) (PiFunctionCall fn (es @ d # post)) env s0 = (r, s2)"
    by (intro impI conjI; (elim conjE)?) (rule argument_signal; assumption)+
  have 11: "evaluate_stmt P (Suc n) (PiBinaryOperation a operator d) env
        = evaluate_stmt P n (PiFunctionCall (PiVariable operator) [a, d]) env"
    by (rule binary_operation_is_call)
  have 12: "evaluate_stmt P (Suc n) (PiWhile c bdy) env s
        = while_loop n (evaluate_stmt P n) c bdy env VNone s"
    by (rule while_entry)
  have 13: "evaluate_stmt P n c env s = (r, s') \<and> is_signal r \<longrightarrow>
        while_loop (Suc k) (evaluate_stmt P n) c bdy env lv s = (r, s')"
    by (intro impI conjI; (elim conjE)?) (rule while_loop_condition_signal; assumption)+
  have 14: "evaluate_stmt P n c env s = (Value (VBool True), s1) \<longrightarrow>
        (evaluate P n bdy env s1 = (ReturnException v, s2) \<longrightarrow>
           while_loop (Suc k) (evaluate_stmt P n) c bdy env lv s = (ReturnException v, s2))
        \<and> (evaluate P n bdy env s1 = (Value x, s2) \<longrightarrow>
           while_loop (Suc k) (evaluate_stmt P n) c bdy env lv s
             = while_loop k (evaluate_stmt P n) c bdy env x s2)
        \<and> (evaluate P n bdy env s1 = (ContinueException, s2) \<longrightarrow>
           while_loop (Suc k) (evaluate_stmt P n) c bdy env lv s
             = while_loop k (evaluate_stmt P n) c bdy env lv s2)"
    by (intro impI conjI; (elim conjE)?) (rule while_round_return while_round_next; assumption)+
  have 15: "evaluate_stmt P n c env s = (Value iv, s1) \<and> (iv = VList items \<or> iv = VTuple items) \<longrightarrow>
        evaluate_stmt P (Suc n) (PiFor var c bdy) env s
          = for_loop (evaluate_stmt P n) var bdy env items VNone s1"
    by (intro impI conjI; (elim conjE)?) (rule for_entry; assumption)+
  have 16: "evaluate P n bdy env (frame_insert env var item s) = (ReturnException v, s2) \<longrightarrow>
        for_loop (evaluate_stmt P n) var bdy env (item # items) lv s = (ReturnException v, s2)"
    by (intro impI conjI; (elim conjE)?) (rule for_round_return; assumption)+
  have 17: "evaluate P n bdy env (frame_insert env var item s) = (Value x, s2) \<longrightarrow>
        for_loop (evaluate_stmt P n) var bdy env (item # items) lv s
          = for_loop (evaluate_stmt P n) var bdy env items x s2"
    by (intro impI conjI; (elim conjE)?) (rule for_round_next(1); assumption)+
  have 18: "evaluate P n bdy env (frame_insert env var item s) = (ContinueException, s2) \<longrightarrow>
        for_loop (evaluate_stmt P n) var bdy env (item # items) lv s
          = for_loop (evaluate_stmt P n) var bdy env items lv s2"
    by (intro impI conjI; (elim conjE)?) (rule for_round_next(2); assumption)+
  have 19: "evaluate_stmt P n fn env s = (Value (VFunctionClosure fc), s1)
        \<and> eval_elements (evaluate_stmt P n) args env s1 = (Value argv, s2)
        \<and> enter_function fc argv s2 = (Value call_env, s3)
        \<and> evaluate P n (body (funcdef fc)) call_env s3 = (r, s4)
        \<and> (r = BreakException \<or> r = ContinueException) \<longrightarrow>
        evaluate_stmt P (Suc n) (PiFunctionCall fn args) env s = (r, s4)"
    by (intro impI conjI; (elim conjE)?) (rule function_call_signal; assumption)+
  have 20: "evaluate_stmt P n fn env s = (Value (VMethodClosure fc inst), s1)
        \<and> eval_elements (evaluate_stmt P n) args env s1 = (Value argv, s2)
        \<and> enter_method fc inst argv s2 = (Value call_env, s3)
        \<and> evaluate P n (body (funcdef fc)) call_env s3 = (r, s4)
        \<and> (r = BreakException \<or> r = ContinueException) \<longrightarrow>
        evaluate_stmt P (Suc n) (PiFunctionCall fn args) env s = (r, s4)"
    by (intro impI conjI; (elim conjE)?) (rule method_call_signal; assumption)+
  have 21: "evaluate_stmt P n fn env s = (Value (VClassDef cd), s1)
        \<and> eval_elements (evaluate_stmt P n) args env s1 = (Value argv, s2)
        \<and> map_of (methods cd) ''__init__'' = Some fc
        \<and> new_object cd s2 = (Value inst, s2')
        \<and> enter_constructor fc (VObject inst) argv s2' = (Value call_env, s3)
        \<and> evaluate P n (body (funcdef fc)) call_env s3 = (r, s4)
        \<and> (r = BreakException \<or> r = ContinueException) \<longrightarrow>
        evaluate_stmt P (Suc n) (PiFunctionCall fn args) env s = (r, s4)"
    by (intro impI conjI; (elim conjE)?) (rule constructor_call_signal; assumption)+
  show ?thesis
    by (intro conjI) (rule 1 2 3 4 5 6 7 8 9 10 11 12 13 14 15 16 17 18 19 20 21)+
qed

text \<open>
  The program \<open>break\<close> ends with \<open>BreakException\<close>; the program
  \<open>1; return 2; y\<close> ends with \<open>ReturnException\<close> of \<open>2\<close> and never looks
  \<open>y\<close> up; \<open>if True: continue; 1\<close> ends with \<open>ContinueException\<close>; a function
  body \<open>break\<close> ends with \<open>BreakException\<close>.  With \<open>def f(): break\<close>, the
  programs \<open>f(); 42\<close> and \<open>x = f()\<close> end with \<open>BreakException\<close>.  The programs
  \<open>for x in [1, 2]: return 5\<close> and \<open>while True: return 5\<close>, each followed by
  \<open>42\<close>, end with \<open>ReturnException\<close> of \<open>5\<close>.
\<close>

theorem uncaught_signal_witness:
  "evaluate no_primitives (Suc 0) [PiBreak] 0 (initial_env []) = (BreakException, initial_env [])
   \<and> evaluate no_primitives (Suc (Suc 0)) [PiNumber 1, PiReturn (PiNumber 2), PiVariable ''y''] 0
        (initial_env [])
      = (ReturnException (VNumber 2), initial_env [])
   \<and> evaluate_stmt no_primitives (Suc (Suc 0))
        (PiIfThenElse (PiBool True) [PiContinue, PiNumber 1] []) 0 (initial_env [])
      = (ContinueException, initial_env [])
   \<and> run_body (evaluate_stmt no_primitives (Suc 0)) [PiBreak] 0 (initial_env [])
      = (BreakException, initial_env [])
   \<and> fst (evaluate no_primitives (Suc (Suc (Suc 0)))
        [PiFunctionDef break_function, PiFunctionCall (PiVariable ''f'') [], PiNumber 42] 0
        (initial_env []))
      = BreakException
   \<and> fst (evaluate no_primitives (Suc (Suc (Suc (Suc 0))))
        [PiFunctionDef break_function,
         PiAssignment ''x'' (PiFunctionCall (PiVariable ''f'') [])] 0
        (initial_env []))
      = BreakException
   \<and> evaluate no_primitives (Suc (Suc (Suc 0)))
        [PiFor ''x'' (PiList [PiNumber 1, PiNumber 2]) [PiReturn (PiNumber 5)], PiNumber 42] 0
        (initial_env [])
      = (ReturnException (VNumber 5), frame_insert 0 ''x'' (VNumber 1) (initial_env []))
   \<and> evaluate no_primitives (Suc (Suc (Suc 0)))
        [PiWhile (PiBool True) [PiReturn (PiNumber 5)], PiNumber 42] 0 (initial_env [])
      = (ReturnException (VNumber 5), initial_env [])"
proof -
  let ?s = "initial_env []"
  let ?P = no_primitives
  note break_rule = uncaught_signal [THEN conjunct1, rule_format]
  note continue_rule = uncaught_signal [THEN conjunct2, THEN conjunct1, rule_format]
  note return_rule = uncaught_signal [THEN conjunct2, THEN conjunct2, THEN conjunct1, rule_format]
  note sequence = uncaught_signal [THEN conjunct2, THEN conjunct2, THEN conjunct2,
      THEN conjunct1, rule_format, OF conjI, OF _ conjI]
  note conditional = uncaught_signal [THEN conjunct2, THEN conjunct2, THEN conjunct2,
      THEN conjunct2, THEN conjunct1, rule_format, OF conjI, OF _ conjI]
  note body_rule = uncaught_signal [THEN conjunct2, THEN conjunct2, THEN conjunct2,
      THEN conjunct2, THEN conjunct2, THEN conjunct1, rule_format, OF conjI]
  note first_child = uncaught_signal [THEN conjunct2, THEN conjunct2, THEN conjunct2,
      THEN conjunct2, THEN conjunct2, THEN conjunct2, THEN conjunct1, rule_format]
  note while_start = uncaught_signal [THEN conjunct2, THEN conjunct2, THEN conjunct2,
      THEN conjunct2, THEN conjunct2, THEN conjunct2, THEN conjunct2, THEN conjunct2,
      THEN conjunct2, THEN conjunct2, THEN conjunct2, THEN conjunct1, rule_format]
  note while_round = uncaught_signal [THEN conjunct2, THEN conjunct2, THEN conjunct2,
      THEN conjunct2, THEN conjunct2, THEN conjunct2, THEN conjunct2, THEN conjunct2,
      THEN conjunct2, THEN conjunct2, THEN conjunct2, THEN conjunct2, THEN conjunct2,
      THEN conjunct1, THEN mp, THEN conjunct1, rule_format]
  note for_start = uncaught_signal [THEN conjunct2, THEN conjunct2, THEN conjunct2,
      THEN conjunct2, THEN conjunct2, THEN conjunct2, THEN conjunct2, THEN conjunct2,
      THEN conjunct2, THEN conjunct2, THEN conjunct2, THEN conjunct2, THEN conjunct2,
      THEN conjunct2, THEN conjunct1, rule_format, OF conjI]
  note for_return = uncaught_signal [THEN conjunct2, THEN conjunct2, THEN conjunct2,
      THEN conjunct2, THEN conjunct2, THEN conjunct2, THEN conjunct2, THEN conjunct2,
      THEN conjunct2, THEN conjunct2, THEN conjunct2, THEN conjunct2, THEN conjunct2,
      THEN conjunct2, THEN conjunct2, THEN conjunct1, rule_format]
  note call_rule = uncaught_signal [THEN conjunct2, THEN conjunct2, THEN conjunct2,
      THEN conjunct2, THEN conjunct2, THEN conjunct2, THEN conjunct2, THEN conjunct2,
      THEN conjunct2, THEN conjunct2, THEN conjunct2, THEN conjunct2, THEN conjunct2,
      THEN conjunct2, THEN conjunct2, THEN conjunct2, THEN conjunct2, THEN conjunct2,
      THEN conjunct1, rule_format]
  have e0: "evaluate ?P n [] env s = (Value VNone, s)" for n env s
    by (rule evaluate_Nil)
  have c1: "evaluate ?P (Suc 0) [PiBreak] 0 ?s = (BreakException, ?s)"
    using sequence [OF e0 break_rule, where post = "[]"] by simp
  have e1: "evaluate ?P (Suc (Suc 0)) [PiNumber 1] 0 ?s = (Value (VNumber 1), ?s)"
    by (simp add: evaluate_def evaluate_with_def ret_def bnd_def)
  have n2: "evaluate_stmt ?P (Suc 0) (PiNumber 2) 0 ?s = (Value (VNumber 2), ?s)"
    by (simp add: ret_def)
  have c2: "evaluate ?P (Suc (Suc 0)) [PiNumber 1, PiReturn (PiNumber 2), PiVariable ''y''] 0 ?s
      = (ReturnException (VNumber 2), ?s)"
    using sequence [OF e1 return_rule [OF n2], where post = "[PiVariable ''y'']"] by simp
  have k: "evaluate ?P (Suc 0) (if True then [PiContinue, PiNumber 1] else []) 0 ?s
      = (ContinueException, ?s)"
    using sequence [OF e0 continue_rule, where post = "[PiNumber 1]"] by simp
  have t: "evaluate_stmt ?P (Suc 0) (PiBool True) env s = (Value (VBool True), s)" for env s
    by (simp add: ret_def)
  have c3: "evaluate_stmt ?P (Suc (Suc 0))
        (PiIfThenElse (PiBool True) [PiContinue, PiNumber 1] []) 0 ?s
      = (ContinueException, ?s)"
    using conditional [OF t k] by simp
  have c4: "run_body (evaluate_stmt ?P (Suc 0)) [PiBreak] 0 ?s = (BreakException, ?s)"
    using body_rule [OF c1] by simp
  let ?f = "VFunctionClosure (FunctionClosure break_function 0)"
  let ?sd = "frame_insert 0 ''f'' ?f ?s"
  let ?sc = "?sd\<lparr>frames := frames ?sd @ [\<lparr>vars = Map.empty, parent = Some 0\<rparr>]\<rparr>"
  have d: "evaluate ?P (Suc n) [PiFunctionDef break_function] 0 ?s = (Value VNone, ?sd)" for n
    by (simp add: evaluate_def evaluate_with_def bnd_def ret_def insert_env_def
        break_function_def)
  have fnv: "evaluate_stmt ?P (Suc n) (PiVariable ''f'') 0 ?sd = (Value ?f, ?sd)" for n
    by (simp add: lookup_def frame_insert_def initial_env_def frame_lookup.simps)
  have av: "eval_elements (evaluate_stmt ?P (Suc n)) [] 0 ?sd = (Value [], ?sd)" for n
    by (simp add: ret_def)
  have ent: "enter_function (FunctionClosure break_function 0) [] ?sd = (Value (Suc 0), ?sc)"
    by (simp add: enter_function_def new_frame_def bnd_def ret_def declared_vararg_def
        break_function_def frame_insert_def initial_env_def)
  have bb: "evaluate ?P (Suc n) (body (funcdef (FunctionClosure break_function 0))) (Suc 0) ?sc
      = (BreakException, ?sc)" for n
    using sequence [OF e0 [of "Suc n" "Suc 0" ?sc] break_rule, where post = "[]"]
    by (simp add: break_function_def)
  have call: "evaluate_stmt ?P (Suc (Suc n)) (PiFunctionCall (PiVariable ''f'') []) 0 ?sd
      = (BreakException, ?sc)" for n
    by (rule call_rule) (intro conjI, rule fnv, rule av, rule ent, rule bb, simp)
  have c5: "evaluate ?P (Suc (Suc (Suc 0)))
        [PiFunctionDef break_function, PiFunctionCall (PiVariable ''f'') [], PiNumber 42] 0 ?s
      = (BreakException, ?sc)"
    using sequence [OF d call, where post = "[PiNumber 42]"] by simp
  have asg: "evaluate_stmt ?P (Suc (Suc (Suc (Suc 0))))
        (PiAssignment ''x'' (PiFunctionCall (PiVariable ''f'') [])) 0 ?sd
      = (BreakException, ?sc)"
    by (rule first_child [where nm = "''x''"]) (intro conjI, rule call, simp, simp)
  have c6: "evaluate ?P (Suc (Suc (Suc (Suc 0))))
        [PiFunctionDef break_function,
         PiAssignment ''x'' (PiFunctionCall (PiVariable ''f'') [])] 0 ?s
      = (BreakException, ?sc)"
    using sequence [OF d asg, where post = "[]"] by simp
  let ?x1 = "frame_insert 0 ''x'' (VNumber 1) ?s"
  have n5: "evaluate_stmt ?P (Suc 0) (PiNumber 5) env s = (Value (VNumber 5), s)" for env s
    by (simp add: ret_def)
  have b5: "evaluate ?P (Suc (Suc 0)) [PiReturn (PiNumber 5)] env s
      = (ReturnException (VNumber 5), s)" for env s
    using sequence [OF e0 return_rule [OF n5], where post = "[]"] by simp
  have l5: "for_loop (evaluate_stmt ?P (Suc (Suc 0))) ''x'' [PiReturn (PiNumber 5)] 0
        [VNumber 1, VNumber 2] VNone ?s = (ReturnException (VNumber 5), ?x1)"
    using b5 by (rule for_return)
  have it: "evaluate_stmt ?P (Suc (Suc 0)) (PiList [PiNumber 1, PiNumber 2]) 0 ?s
      = (Value (VList [VNumber 1, VNumber 2]), ?s)"
    by (simp add: bnd_def ret_def)
  have f5: "evaluate_stmt ?P (Suc (Suc (Suc 0)))
        (PiFor ''x'' (PiList [PiNumber 1, PiNumber 2]) [PiReturn (PiNumber 5)]) 0 ?s
      = (ReturnException (VNumber 5), ?x1)"
    using for_start [OF it, where items = "[VNumber 1, VNumber 2]" and var = "''x''"
        and bdy = "[PiReturn (PiNumber 5)]"] l5
    by simp
  have c7: "evaluate ?P (Suc (Suc (Suc 0)))
        [PiFor ''x'' (PiList [PiNumber 1, PiNumber 2]) [PiReturn (PiNumber 5)], PiNumber 42] 0 ?s
      = (ReturnException (VNumber 5), ?x1)"
    using sequence [OF e0 f5, where post = "[PiNumber 42]"] by simp
  have t2: "evaluate_stmt ?P (Suc (Suc 0)) (PiBool True) 0 ?s = (Value (VBool True), ?s)"
    by (simp add: ret_def)
  have w5: "while_loop (Suc (Suc 0)) (evaluate_stmt ?P (Suc (Suc 0))) (PiBool True)
        [PiReturn (PiNumber 5)] 0 VNone ?s = (ReturnException (VNumber 5), ?s)"
    using t2 b5 by (rule while_round)
  have l7: "evaluate_stmt ?P (Suc (Suc (Suc 0)))
        (PiWhile (PiBool True) [PiReturn (PiNumber 5)]) 0 ?s
      = (ReturnException (VNumber 5), ?s)"
    unfolding while_start by (rule w5)
  have c8: "evaluate ?P (Suc (Suc (Suc 0)))
        [PiWhile (PiBool True) [PiReturn (PiNumber 5)], PiNumber 42] 0 ?s
      = (ReturnException (VNumber 5), ?s)"
    using sequence [OF e0 l7, where post = "[PiNumber 42]"] by simp
  show ?thesis
    using c1 c2 c3 c4 c5 c6 c7 c8 by simp
qed

section \<open>Constructor calls\<close>

subsection \<open>The number of arguments\<close>

text \<open>
  The loop that binds the parameters stops with the error of the first parameter that
  has no argument, and it never looks at arguments beyond the parameters.
\<close>

lemma bind_args_missing:
  "i \<le> length args \<Longrightarrow> i + length names > length args \<Longrightarrow>
   \<exists>nm s'. nm \<in> set names \<and> bind_args missing call_env names i args s
             = (Raise (TypeError (missing nm)), s')"
proof (induction names arbitrary: i s)
  case Nil
  then show ?case by simp
next
  case (Cons a names)
  show ?case
  proof (cases "i < length args")
    case True
    then have "Suc i \<le> length args" "Suc i + length names > length args"
      using Cons.prems by simp_all
    from Cons.IH [OF this, of "frame_insert call_env a (args ! i) s"]
    show ?thesis using True by (auto simp add: bnd_def insert_env_def)
  next
    case False
    then show ?thesis by (auto simp add: raise_def)
  qed
qed

lemma bind_receiver_Value:
  "\<exists>s1. bind_receiver call_env names instance s = (Value (), s1)"
  by (cases "names = []") (simp_all add: bind_receiver_def insert_env_def ret_def)

lemma bind_args_enough:
  "i + length names \<le> length args \<Longrightarrow>
   \<exists>s'. bind_args missing call_env names i args s = (Value (), s')"
proof (induction names arbitrary: i s)
  case Nil
  then show ?case by (simp add: ret_def)
next
  case (Cons a names)
  then have "i < length args" "Suc i + length names \<le> length args" by simp_all
  with Cons.IH [of "Suc i" "frame_insert call_env a (args ! i) s"]
  show ?case by (auto simp add: bnd_def insert_env_def)
qed

lemma enter_constructor_too_few:
  "length args < length (arg_names (funcdef init_method)) - 1 \<Longrightarrow>
   \<exists>nm s'. enter_constructor init_method instance args s
             = (Raise (TypeError (MissingInitArgument nm)), s')"
proof -
  assume a: "length args < length (arg_names (funcdef init_method)) - 1"
  let ?names = "arg_names (funcdef init_method)"
  obtain s1 where r: "bind_receiver (length (frames s)) ?names instance
      (snd (new_frame (Some (closure_env init_method)) s)) = (Value (), s1)"
    using bind_receiver_Value by blast
  from a have "0 \<le> length args" "0 + length (drop 1 ?names) > length args" by simp_all
  from bind_args_missing [OF this, of MissingInitArgument "length (frames s)" s1]
  obtain nm s' where "bind_args MissingInitArgument (length (frames s)) (drop 1 ?names) 0 args s1
      = (Raise (TypeError (MissingInitArgument nm)), s')"
    by blast
  with r show ?thesis
    by (auto simp add: enter_constructor_def bnd_def new_frame_def)
qed

lemma enter_constructor_never_too_many:
  "length (arg_names (funcdef init_method)) - 1 \<le> length args \<Longrightarrow>
   \<exists>s'. enter_constructor init_method instance args s = (Value (length (frames s)), s')"
proof -
  assume a: "length (arg_names (funcdef init_method)) - 1 \<le> length args"
  let ?names = "arg_names (funcdef init_method)"
  obtain s1 where r: "bind_receiver (length (frames s)) ?names instance
      (snd (new_frame (Some (closure_env init_method)) s)) = (Value (), s1)"
    using bind_receiver_Value by blast
  from a have "0 + length (drop 1 ?names) \<le> length args" by simp
  from bind_args_enough [OF this, of MissingInitArgument "length (frames s)" s1]
  obtain s' where "bind_args MissingInitArgument (length (frames s)) (drop 1 ?names) 0 args s1
      = (Value (), s')"
    by blast
  with r show ?thesis
    by (auto simp add: enter_constructor_def bnd_def new_frame_def ret_def)
qed

text \<open>
  Claim C1.  With \<open>class C\<close> whose constructor is \<open>__init__(self)\<close>, the call
  \<open>C(1, 2)\<close> has two arguments more than the constructor declares and it is not an
  error: it gives the new instance.  The same two arguments to a function \<open>f(a)\<close> are
  the error of too many arguments, and too few arguments to a constructor are the error
  of a missing argument.
\<close>

theorem constructor_accepts_surplus_arguments:
  "fst (evaluate no_primitives (Suc (Suc (Suc 0)))
          [PiClassDef ''C'' [init_one_param],
           PiFunctionCall (PiVariable ''C'') [PiNumber 1, PiNumber 2]] 0 (initial_env []))
      = Value (VObject 0)
   \<and> fst (evaluate no_primitives (Suc (Suc (Suc 0)))
          [PiFunctionDef (FuncDef ''f'' [''a''] None [PiVariable ''a'']),
           PiFunctionCall (PiVariable ''f'') [PiNumber 1, PiNumber 2]] 0 (initial_env []))
      = Raise (TypeError TooManyFunctionArguments)
   \<and> fst (evaluate no_primitives (Suc (Suc (Suc 0)))
          [PiClassDef ''C'' [init_two_params],
           PiFunctionCall (PiVariable ''C'') []] 0 (initial_env []))
      = Raise (TypeError (MissingInitArgument ''v''))"
  by (simp add: run_defs init_one_param_def init_two_params_def)

subsection \<open>The result of a constructor call\<close>

lemma class_store_defined:
  "evaluate_stmt P (Suc n) (PiClassDef ''C'' [init_two_params]) 0 (initial_env [])
     = (Value VNone, class_store)"
  by (simp add: run_defs class_store_def init_two_params_def)

lemma enter_constructor_self_v:
  assumes "self \<noteq> v"
  shows "enter_constructor (FunctionClosure (FuncDef nm [self, v] va b) cenv) (VObject inst) [a] s
     = (Value (length (frames s)),
        s\<lparr>frames := frames s @ [\<lparr>vars = [self \<mapsto> VObject inst, v \<mapsto> a], parent = Some cenv\<rparr>]\<rparr>)"
  using assms
  by (simp add: enter_constructor_def bnd_def ret_def new_frame_def bind_receiver_def
      insert_env_def frame_insert_def)

lemma assign_val_in_call_frame:
  assumes "self \<noteq> v"
    and fs: "frames s = fs @ [\<lparr>vars = [self \<mapsto> VObject inst, v \<mapsto> a], parent = p\<rparr>]"
  shows "evaluate_stmt P (Suc (Suc m))
           (PiAttributeAssignment (PiVariable self) ''val'' (PiVariable v)) (length fs) s
     = (Value a,
        s\<lparr>objects := (objects s)[inst := (objects s ! inst)
             \<lparr>attributes := (attributes (objects s ! inst))(''val'' \<mapsto> a)\<rparr>]\<rparr>)"
  using assms
  by (simp add: bnd_def ret_def lookup_def frame_lookup.simps set_attribute_def)

text \<open>
  Claim C5.  A call whose callee is a class with \<open>__init__\<close>: when the body of
  \<open>__init__\<close>, run in the frame of the call, ends with a value or with
  \<open>ReturnException\<close>, the call gives the new Object, whatever was returned.  When
  \<open>__init__(self, v)\<close> has the body \<open>self.val = v\<close>, alone or followed by the
  return of a number, the call with one argument gives a new Object of that class whose
  attribute \<open>val\<close> is the argument.
\<close>

theorem constructor_result:
  assumes callee: "evaluate_stmt P n f env s = (Value (VClassDef cd), s1)"
    and args: "eval_elements (evaluate_stmt P n) args env s1 = (Value argv, s2)"
    and init: "map_of (methods cd) ''__init__'' = Some init_method"
  shows "(enter_constructor init_method (VObject (length (objects s2))) argv
             (snd (new_object cd s2)) = (Value call_env, s3)
          \<and> evaluate_with (evaluate_stmt P n) (body (funcdef init_method)) call_env s3 = (r, s4)
          \<and> ((\<exists>v. r = ReturnException v) \<or> (\<exists>v. r = Value v)) \<longrightarrow>
            evaluate_stmt P (Suc n) (PiFunctionCall f args) env s
              = (Value (VObject (length (objects s2))), s4))
       \<and> (funcdef init_method
             = FuncDef nm [self, v] va
                 (PiAttributeAssignment (PiVariable self) ''val'' (PiVariable v) # rest)
          \<and> self \<noteq> v \<and> argv = [a] \<and> 2 \<le> n
          \<and> (rest = [] \<or> (\<exists>k. rest = [PiReturn (PiNumber k)])) \<longrightarrow>
            (\<exists>s'. evaluate_stmt P (Suc n) (PiFunctionCall f args) env s
                    = (Value (VObject (length (objects s2))), s')
                 \<and> length (objects s') = Suc (length (objects s2))
                 \<and> class_def (objects s' ! length (objects s2)) = cd
                 \<and> attributes (objects s' ! length (objects s2)) ''val'' = Some a))"
proof (intro conjI impI)
  assume h: "enter_constructor init_method (VObject (length (objects s2))) argv
             (snd (new_object cd s2)) = (Value call_env, s3)
          \<and> evaluate_with (evaluate_stmt P n) (body (funcdef init_method)) call_env s3 = (r, s4)
          \<and> ((\<exists>v. r = ReturnException v) \<or> (\<exists>v. r = Value v))"
  then have "run_init_body (evaluate_stmt P n) (body (funcdef init_method)) call_env s3
      = (Value (), s4)"
    by (auto simp add: run_init_body_def)
  with h show "evaluate_stmt P (Suc n) (PiFunctionCall f args) env s
              = (Value (VObject (length (objects s2))), s4)"
    using callee args init
    by (simp add: evaluate_function_call_def bnd_Value call_constructor_def new_object_def
        ret_def)
next
  assume h: "funcdef init_method
             = FuncDef nm [self, v] va
                 (PiAttributeAssignment (PiVariable self) ''val'' (PiVariable v) # rest)
          \<and> self \<noteq> v \<and> argv = [a] \<and> 2 \<le> n
          \<and> (rest = [] \<or> (\<exists>k. rest = [PiReturn (PiNumber k)]))"
  obtain m where n: "n = Suc (Suc m)"
    using h by (metis Suc_le_D numeral_2_eq_2 Suc_le_mono)
  obtain cenv where im: "init_method = FunctionClosure (FuncDef nm [self, v] va
                 (PiAttributeAssignment (PiVariable self) ''val'' (PiVariable v) # rest)) cenv"
    using h by (cases init_method) simp
  let ?inst = "length (objects s2)"
  let ?s3 = "snd (new_object cd s2)"
  let ?frame = "\<lparr>vars = [self \<mapsto> VObject ?inst, v \<mapsto> a], parent = Some cenv\<rparr>"
  let ?s4 = "?s3\<lparr>frames := frames ?s3 @ [?frame]\<rparr>"
  let ?s5 = "?s4\<lparr>objects := (objects ?s4)[?inst := (objects ?s4 ! ?inst)
             \<lparr>attributes := (attributes (objects ?s4 ! ?inst))(''val'' \<mapsto> a)\<rparr>]\<rparr>"
  have enter: "enter_constructor init_method (VObject ?inst) argv ?s3
      = (Value (length (frames ?s3)), ?s4)"
    using h im enter_constructor_self_v [of self v nm va _ cenv ?inst a ?s3] by simp
  have assign: "evaluate_stmt P n
           (PiAttributeAssignment (PiVariable self) ''val'' (PiVariable v)) (length (frames ?s3)) ?s4
     = (Value a, ?s5)"
    unfolding n
    by (rule assign_val_in_call_frame [where fs = "frames ?s3" and p = "Some cenv"])
       (use h in simp_all)
  have body: "\<exists>r. evaluate_with (evaluate_stmt P n) (body (funcdef init_method))
        (length (frames ?s3)) ?s4 = (r, ?s5) \<and> ((\<exists>v. r = ReturnException v) \<or> (\<exists>v. r = Value v))"
  proof -
    from h consider "rest = []" | k where "rest = [PiReturn (PiNumber k)]" by blast
    then show ?thesis
    proof cases
      case 1
      then show ?thesis
        using assign im by (simp add: evaluate_with_def bnd_def ret_def)
    next
      case 2
      then show ?thesis
        using assign im by (simp add: evaluate_with_def bnd_def ret_def n)
    qed
  qed
  then obtain r where r: "evaluate_with (evaluate_stmt P n) (body (funcdef init_method))
        (length (frames ?s3)) ?s4 = (r, ?s5)" "(\<exists>v. r = ReturnException v) \<or> (\<exists>v. r = Value v)"
    by blast
  have "run_init_body (evaluate_stmt P n) (body (funcdef init_method)) (length (frames ?s3)) ?s4
      = (Value (), ?s5)"
    using r by (auto simp add: run_init_body_def)
  then have call: "evaluate_stmt P (Suc n) (PiFunctionCall f args) env s
      = (Value (VObject ?inst), ?s5)"
    using callee args init enter
    by (simp add: evaluate_function_call_def bnd_Value call_constructor_def new_object_def
        ret_def)
  have "length (objects ?s5) = Suc ?inst"
    "class_def (objects ?s5 ! ?inst) = cd"
    "attributes (objects ?s5 ! ?inst) ''val'' = Some a"
    by (simp_all add: new_object_def)
  with call show "\<exists>s'. evaluate_stmt P (Suc n) (PiFunctionCall f args) env s
                    = (Value (VObject (length (objects s2))), s')
                 \<and> length (objects s') = Suc (length (objects s2))
                 \<and> class_def (objects s' ! length (objects s2)) = cd
                 \<and> attributes (objects s' ! length (objects s2)) ''val'' = Some a"
    by blast
qed

text \<open>
  With \<open>class C\<close> whose \<open>__init__(self, v)\<close> is \<open>self.val = v; return 99\<close>,
  \<open>C(7)\<close> is the first object of the store, of class \<open>C\<close>, with \<open>val\<close> equal to
  \<open>7\<close>: the \<open>99\<close> is dropped.
\<close>

theorem constructor_result_witness:
  "\<exists>s'. evaluate_stmt no_primitives (Suc (Suc (Suc 0)))
           (PiFunctionCall (PiVariable ''C'') [PiNumber 7]) 0 class_store
         = (Value (VObject 0), s')
       \<and> length (objects s') = Suc 0
       \<and> class_def (objects s' ! 0)
           = ClassDef ''C'' [(''__init__'', FunctionClosure init_two_params 1)]
       \<and> attributes (objects s' ! 0) ''val'' = Some (VNumber 7)"
proof -
  let ?P = no_primitives
  let ?cd = "ClassDef ''C'' [(''__init__'', FunctionClosure init_two_params 1)]"
  have callee: "evaluate_stmt ?P (Suc (Suc 0)) (PiVariable ''C'') 0 class_store
      = (Value (VClassDef ?cd), class_store)"
    by (simp add: lookup_def class_store_def frame_lookup.simps)
  have args: "eval_elements (evaluate_stmt ?P (Suc (Suc 0))) [PiNumber 7] 0 class_store
      = (Value [VNumber 7], class_store)"
    by (simp add: bnd_def ret_def)
  have init: "map_of (methods ?cd) ''__init__'' = Some (FunctionClosure init_two_params 1)"
    by simp
  have o: "length (objects class_store) = 0"
    by (simp add: class_store_def)
  show ?thesis
    using constructor_result [OF callee args init, where nm = "''__init__''" and self = "''self''"
        and v = "''v''" and va = None and rest = "[PiReturn (PiNumber 99)]" and a = "VNumber 7"]
      o
    by (simp add: init_two_params_def)
qed

section \<open>Frames and bindings are never removed\<close>

text \<open>
  No rule of the evaluator removes a frame or a binding: frames are created by calls,
  and \<open>insert\<close> adds or replaces one binding.
\<close>

lemma frames_extend_refl [simp]: "frames_extend s s"
  by (simp add: frames_extend_def)

lemma frames_extend_trans:
  "frames_extend s s1 \<Longrightarrow> frames_extend s1 s2 \<Longrightarrow> frames_extend s s2"
  unfolding frames_extend_def
  by (meson dual_order.trans order_less_le_trans)

lemma extendsI: "(\<And>s r s'. m s = (r, s') \<Longrightarrow> frames_extend s s') \<Longrightarrow> extends m"
  by (simp add: extends_def)

lemma extendsD: "extends m \<Longrightarrow> m s = (r, s') \<Longrightarrow> frames_extend s s'"
  by (simp add: extends_def)

lemma extends_same [simp]: "extends (\<lambda>s. (r, s))"
  by (simp add: extends_def)

lemma extends_ret [simp]: "extends (ret v)"
  by (simp add: extends_def ret_def)

lemma extends_raise [simp]: "extends (raise e)"
  by (simp add: extends_def raise_def)

lemma extends_bnd:
  assumes "extends m" and "\<And>v. extends (f v)"
  shows "extends (bnd m f)"
proof (rule extendsI)
  fix s r s'
  assume b: "bnd m f s = (r, s')"
  obtain r1 s1 where m: "m s = (r1, s1)" by (cases "m s")
  then have e1: "frames_extend s s1" using assms(1) by (rule extendsD [rotated])
  show "frames_extend s s'"
  proof (cases r1)
    case (Value v)
    with b m have "f v s1 = (r, s')" by (simp add: bnd_def)
    then have "frames_extend s1 s'" using assms(2) by (rule extendsD [rotated])
    with e1 show ?thesis by (rule frames_extend_trans)
  qed (use b m e1 in \<open>simp_all add: bnd_def\<close>)
qed

lemma extends_if: "extends a \<Longrightarrow> extends b \<Longrightarrow> extends (if c then a else b)"
  by simp

lemma frames_extend_frame_insert: "frames_extend s (frame_insert env nm v s)"
proof -
  have "dom (vars (frames s ! a)) \<subseteq> dom (vars (frames (frame_insert env nm v s) ! a))"
    if "a < length (frames s)" for a
    using that by (cases "a = env") (auto simp add: frame_insert_def)
  then show ?thesis
    by (simp add: frames_extend_def frame_insert_def)
qed

lemma extends_insert_env [simp]: "extends (insert_env env nm v)"
  by (simp add: extends_def insert_env_def frames_extend_frame_insert)

lemma extends_lookup [simp]: "extends (lookup env nm)"
  by (auto simp add: extends_def lookup_def split: option.splits)

lemma extends_new_frame [simp]: "extends (new_frame p)"
  by (auto simp add: extends_def new_frame_def frames_extend_def nth_append)

lemma extends_new_object [simp]: "extends (new_object cd)"
  by (auto simp add: extends_def new_object_def frames_extend_def)

lemma extends_set_attribute [simp]: "extends (set_attribute a attr v)"
  by (auto simp add: extends_def set_attribute_def frames_extend_def)

lemma extends_get_attribute [simp]: "extends (get_attribute a attr)"
  by (auto simp add: extends_def get_attribute_def Let_def split: option.splits)

lemma extends_check_type_VBool [simp]: "extends (check_type_VBool v)"
  by (cases v) (simp_all add: check_type_VBool_def)

lemma extends_check_type_VNumber [simp]: "extends (check_type_VNumber v)"
  by (cases v) (simp_all add: check_type_VNumber_def)

lemma extends_check_valid [simp]: "extends (check_valid_piandor_type v)"
  by (simp add: check_valid_piandor_type_def)

lemma extends_call_primitive [simp]: "extends (call_primitive P p args)"
  by (simp add: call_primitive_def split: sum.split)

lemma extends_bind_receiver [simp]: "extends (bind_receiver call_env names instance)"
  by (simp add: bind_receiver_def)

lemma extends_bind_args [simp]: "extends (bind_args missing call_env names i args)"
  by (induction names arbitrary: i) (auto intro!: extends_bnd)

lemma extends_enter_constructor [simp]: "extends (enter_constructor init_method instance args)"
  by (auto simp add: enter_constructor_def intro!: extends_bnd)

lemma extends_enter_method [simp]: "extends (enter_method fc instance args)"
  by (auto simp add: enter_method_def Let_def intro!: extends_bnd split: option.split)

lemma extends_enter_function [simp]: "extends (enter_function fc args)"
  by (auto simp add: enter_function_def Let_def intro!: extends_bnd split: option.split)

text \<open>Over an evaluator that extends.\<close>

lemma extends_eval_elements:
  assumes "\<And>node env. extends (rec node env)"
  shows "extends (eval_elements rec es env)"
  by (induction es) (auto intro!: extends_bnd assms)

lemma extends_evaluate_from:
  assumes "\<And>node env. extends (rec node env)"
  shows "extends (evaluate_from rec stmts env lv)"
  by (induction stmts arbitrary: lv) (auto intro!: extends_bnd assms)

lemma extends_evaluate_with:
  assumes "\<And>node env. extends (rec node env)"
  shows "extends (evaluate_with rec stmts env)"
  by (simp add: evaluate_with_def extends_evaluate_from assms)

lemma extends_run_body:
  assumes "\<And>node env. extends (rec node env)"
  shows "extends (run_body rec stmts env)"
proof (rule extendsI)
  fix s r s'
  assume "run_body rec stmts env s = (r, s')"
  then have "\<exists>r0. evaluate_with rec stmts env s = (r0, s')"
    by (auto simp add: run_body_def split: prod.splits outcome.splits)
  moreover have "extends (evaluate_with rec stmts env)"
    by (rule extends_evaluate_with) (rule assms)
  ultimately show "frames_extend s s'"
    by (auto dest: extendsD)
qed

lemma extends_run_init_body:
  assumes "\<And>node env. extends (rec node env)"
  shows "extends (run_init_body rec stmts env)"
proof (rule extendsI)
  fix s r s'
  assume "run_init_body rec stmts env s = (r, s')"
  then have "\<exists>r0. evaluate_with rec stmts env s = (r0, s')"
    by (auto simp add: run_init_body_def split: prod.splits outcome.splits)
  moreover have "extends (evaluate_with rec stmts env)"
    by (rule extends_evaluate_with) (rule assms)
  ultimately show "frames_extend s s'"
    by (auto dest: extendsD)
qed

lemma extends_while_loop:
  assumes "\<And>node env. extends (rec node env)"
  shows "extends (while_loop k rec c b env lv)"
proof (induction k arbitrary: lv)
  case 0
  show ?case by simp
next
  case (Suc k)
  have step: "extends (\<lambda>s. case evaluate_with rec b env s of
           (Value v, s') \<Rightarrow> while_loop k rec c b env v s'
         | (BreakException, s') \<Rightarrow> (Value lv, s')
         | (ContinueException, s') \<Rightarrow> while_loop k rec c b env lv s'
         | (Raise e, s') \<Rightarrow> (Raise e, s')
         | (ReturnException v, s') \<Rightarrow> (ReturnException v, s')
         | (OutOfFuel, s') \<Rightarrow> (OutOfFuel, s'))"
  proof (rule extendsI)
    fix s r s'
    assume a: "(case evaluate_with rec b env s of
           (Value v, s') \<Rightarrow> while_loop k rec c b env v s'
         | (BreakException, s') \<Rightarrow> (Value lv, s')
         | (ContinueException, s') \<Rightarrow> while_loop k rec c b env lv s'
         | (Raise e, s') \<Rightarrow> (Raise e, s')
         | (ReturnException v, s') \<Rightarrow> (ReturnException v, s')
         | (OutOfFuel, s') \<Rightarrow> (OutOfFuel, s')) = (r, s')"
    obtain r1 s1 where e: "evaluate_with rec b env s = (r1, s1)" by (cases "evaluate_with rec b env s")
    have "extends (evaluate_with rec b env)"
      by (rule extends_evaluate_with) (rule assms)
    with e have e1: "frames_extend s s1"
      by (auto dest: extendsD)
    show "frames_extend s s'"
    proof (cases r1)
      case (Value v)
      with a e have "while_loop k rec c b env v s1 = (r, s')" by simp
      then have "frames_extend s1 s'" using Suc.IH by (auto dest: extendsD)
      with e1 show ?thesis by (rule frames_extend_trans)
    next
      case ContinueException
      with a e have "while_loop k rec c b env lv s1 = (r, s')" by simp
      then have "frames_extend s1 s'" using Suc.IH by (auto dest: extendsD)
      with e1 show ?thesis by (rule frames_extend_trans)
    qed (use a e e1 in simp_all)
  qed
  show ?case
    by (auto intro!: extends_bnd assms step)
qed

lemma extends_for_round:
  assumes "\<And>node env. extends (rec node env)"
    and "\<And>lv. extends (for_loop rec var b env items lv)"
  shows "extends (\<lambda>s. case evaluate_with rec b env s of
           (Value v, s') \<Rightarrow> for_loop rec var b env items v s'
         | (BreakException, s') \<Rightarrow> (Value lv, s')
         | (ContinueException, s') \<Rightarrow> for_loop rec var b env items lv s'
         | (Raise e, s') \<Rightarrow> (Raise e, s')
         | (ReturnException v, s') \<Rightarrow> (ReturnException v, s')
         | (OutOfFuel, s') \<Rightarrow> (OutOfFuel, s'))"
proof (rule extendsI)
  fix s r s'
  assume a: "(case evaluate_with rec b env s of
         (Value v, s') \<Rightarrow> for_loop rec var b env items v s'
       | (BreakException, s') \<Rightarrow> (Value lv, s')
       | (ContinueException, s') \<Rightarrow> for_loop rec var b env items lv s'
       | (Raise e, s') \<Rightarrow> (Raise e, s')
       | (ReturnException v, s') \<Rightarrow> (ReturnException v, s')
       | (OutOfFuel, s') \<Rightarrow> (OutOfFuel, s')) = (r, s')"
  obtain r1 s1 where e: "evaluate_with rec b env s = (r1, s1)"
    by (cases "evaluate_with rec b env s")
  have "extends (evaluate_with rec b env)"
    by (rule extends_evaluate_with) (rule assms)
  with e have e1: "frames_extend s s1"
    by (auto dest: extendsD)
  show "frames_extend s s'"
  proof (cases r1)
    case (Value v)
    with a e have "for_loop rec var b env items v s1 = (r, s')" by simp
    then have "frames_extend s1 s'" using assms(2) by (auto dest: extendsD)
    with e1 show ?thesis by (rule frames_extend_trans)
  next
    case ContinueException
    with a e have "for_loop rec var b env items lv s1 = (r, s')" by simp
    then have "frames_extend s1 s'" using assms(2) by (auto dest: extendsD)
    with e1 show ?thesis by (rule frames_extend_trans)
  qed (use a e e1 in simp_all)
qed

lemma extends_for_loop:
  assumes "\<And>node env. extends (rec node env)"
  shows "extends (for_loop rec var b env items lv)"
proof (induction items arbitrary: lv)
  case Nil
  show ?case by simp
next
  case (Cons item items)
  show ?case
    by (auto intro!: extends_bnd extends_for_round assms Cons.IH)
qed

lemma extends_evaluate_for:
  assumes "\<And>node env. extends (rec node env)"
  shows "extends (evaluate_for rec var it b env)"
  by (auto simp add: evaluate_for_def intro!: extends_bnd assms extends_for_loop
      split: envvalue.split)

lemma extends_evaluate_subscript:
  assumes "\<And>node env. extends (rec node env)"
  shows "extends (evaluate_subscript rec c i env)"
  by (auto simp add: evaluate_subscript_def intro!: extends_bnd assms
      split: envvalue.split option.split)

lemma extends_evaluate_in:
  assumes "\<And>node env. extends (rec node env)"
  shows "extends (evaluate_in rec x c env)"
  by (auto simp add: evaluate_in_def intro!: extends_bnd assms split: envvalue.split)

lemma extends_evaluate_function_call:
  assumes "\<And>node env. extends (rec node env)"
  shows "extends (evaluate_function_call P rec f args env)"
  by (auto simp add: evaluate_function_call_def call_constructor_def call_method_def
      call_function_def
      intro!: extends_bnd assms extends_eval_elements extends_run_body extends_run_init_body
      split: envvalue.split option.split)

lemma extends_evaluate_node:
  assumes "\<And>node env. extends (rec node env)"
  shows "extends (evaluate_node P n rec node env)"
  by (cases node)
     (auto simp add: evaluate_while_def
       intro!: extends_bnd assms extends_eval_elements extends_evaluate_with extends_while_loop
         extends_evaluate_for extends_evaluate_subscript extends_evaluate_in
         extends_evaluate_function_call
       split: envvalue.split)

lemma extends_evaluate_stmt: "extends (evaluate_stmt P n node env)"
proof (induction n arbitrary: node env)
  case 0
  show ?case by simp
next
  case (Suc n)
  show ?case by (simp add: extends_evaluate_node Suc.IH)
qed

section \<open>The scope of a \<open>for\<close> loop\<close>

lemma for_loop_after_binding:
  assumes "for_loop (evaluate_stmt P n) var b env (item # items) lv s = (r, s')"
  shows "frames_extend (frame_insert env var item s) s'"
proof -
  have "extends (\<lambda>s. case evaluate_with (evaluate_stmt P n) b env s of
           (Value v, s') \<Rightarrow> for_loop (evaluate_stmt P n) var b env items v s'
         | (BreakException, s') \<Rightarrow> (Value lv, s')
         | (ContinueException, s') \<Rightarrow> for_loop (evaluate_stmt P n) var b env items lv s'
         | (Raise e, s') \<Rightarrow> (Raise e, s')
         | (ReturnException v, s') \<Rightarrow> (ReturnException v, s')
         | (OutOfFuel, s') \<Rightarrow> (OutOfFuel, s'))"
    by (rule extends_for_round) (simp_all add: extends_evaluate_stmt extends_for_loop)
  moreover have "(case evaluate_with (evaluate_stmt P n) b env (frame_insert env var item s) of
           (Value v, s') \<Rightarrow> for_loop (evaluate_stmt P n) var b env items v s'
         | (BreakException, s') \<Rightarrow> (Value lv, s')
         | (ContinueException, s') \<Rightarrow> for_loop (evaluate_stmt P n) var b env items lv s'
         | (Raise e, s') \<Rightarrow> (Raise e, s')
         | (ReturnException v, s') \<Rightarrow> (ReturnException v, s')
         | (OutOfFuel, s') \<Rightarrow> (OutOfFuel, s')) = (r, s')"
    using assms by (simp add: bnd_def insert_env_def)
  ultimately show ?thesis
    by (rule extendsD)
qed

lemma for_loop_after_round:
  assumes "for_loop (evaluate_stmt P n) var b env (item # items) lv s = (r, s')"
    and "evaluate P n b env (frame_insert env var item s) = (rb, sb)"
  shows "frames_extend sb s'"
proof -
  have l: "extends (for_loop (evaluate_stmt P n) var b env items x)" for x
    by (rule extends_for_loop) (rule extends_evaluate_stmt)
  from assms have c: "(case (rb, sb) of
           (Value v, s') \<Rightarrow> for_loop (evaluate_stmt P n) var b env items v s'
         | (BreakException, s') \<Rightarrow> (Value lv, s')
         | (ContinueException, s') \<Rightarrow> for_loop (evaluate_stmt P n) var b env items lv s'
         | (Raise e, s') \<Rightarrow> (Raise e, s')
         | (ReturnException v, s') \<Rightarrow> (ReturnException v, s')
         | (OutOfFuel, s') \<Rightarrow> (OutOfFuel, s')) = (r, s')"
    by (simp add: bnd_def insert_env_def evaluate_def)
  show ?thesis
  proof (cases rb)
    case (Value v)
    with c have "for_loop (evaluate_stmt P n) var b env items v sb = (r, s')" by simp
    with l show ?thesis by (rule extendsD)
  next
    case ContinueException
    with c have "for_loop (evaluate_stmt P n) var b env items lv sb = (r, s')" by simp
    with l show ?thesis by (rule extendsD)
  qed (use c in simp_all)
qed

lemma frame_insert_binds:
  "env < length (frames s) \<Longrightarrow> vars (frames (frame_insert env nm v s) ! env) nm = Some v"
  by (simp add: frame_insert_def)

lemma frames_extend_bound:
  "frames_extend s s' \<Longrightarrow> a < length (frames s) \<Longrightarrow> nm \<in> dom (vars (frames s ! a)) \<Longrightarrow>
   a < length (frames s') \<and> nm \<in> dom (vars (frames s' ! a))"
  unfolding frames_extend_def by (meson order_less_le_trans subsetD)

lemma for_binds_loop_variable:
  assumes it: "evaluate_stmt P n it F s = (Value iv, s0)"
    and iv: "iv = VList xs \<or> iv = VTuple xs"
    and xs: "xs \<noteq> []"
    and F: "F < length (frames s)"
    and loop: "evaluate_stmt P (Suc n) (PiFor var it b) F s = (r, s')"
  shows "var \<in> dom (vars (frames s' ! F))"
proof -
  obtain x xs' where x: "xs = x # xs'" using xs by (cases xs) simp_all
  have "frames_extend s s0"
    using extends_evaluate_stmt it by (rule extendsD)
  then have F0: "F < length (frames s0)"
    using F by (simp add: frames_extend_def)
  have "for_loop (evaluate_stmt P n) var b F (x # xs') VNone s0 = (r, s')"
    using loop it iv x by (auto simp add: evaluate_for_def bnd_Value)
  then have "frames_extend (frame_insert F var x s0) s'"
    by (rule for_loop_after_binding)
  moreover have "F < length (frames (frame_insert F var x s0))"
    using F0 by (simp add: frame_insert_def)
  moreover have "var \<in> dom (vars (frames (frame_insert F var x s0) ! F))"
    using frame_insert_binds [OF F0] by (simp add: domI)
  ultimately show ?thesis
    using frames_extend_bound by blast
qed

lemma assignment_binds:
  assumes "evaluate_stmt P (Suc n) (PiAssignment y e) F s = (Value v, s')"
    and F: "F < length (frames s)"
  shows "vars (frames s' ! F) y = Some v"
proof -
  obtain r1 s1 where e: "evaluate_stmt P n e F s = (r1, s1)"
    by (cases "evaluate_stmt P n e F s")
  have "frames_extend s s1"
    using extends_evaluate_stmt e by (rule extendsD)
  then have F1: "F < length (frames s1)"
    using F by (simp add: frames_extend_def)
  from assms(1) e have "r1 = Value v \<and> s' = frame_insert F y v s1"
    by (cases r1) (auto simp add: bnd_def insert_env_def ret_def)
  then show ?thesis
    using frame_insert_binds [OF F1] by simp
qed

lemma for_one_two_three:
  assumes F: "F < length (frames s)"
  shows "\<exists>s'. evaluate_stmt P (Suc (Suc (Suc m)))
              (PiFor ''x'' (PiList [PiNumber 1, PiNumber 2, PiNumber 3])
                 [PiAssignment ''y'' (PiVariable ''x'')]) F s
            = (Value (VNumber 3), s')
          \<and> frame_lookup (frames s') F ''x'' = Some (VNumber 3)
          \<and> frame_lookup (frames s') F ''y'' = Some (VNumber 3)
          \<and> length (frames s') = length (frames s)
          \<and> objects s' = objects s"
  using F
  by (simp add: evaluate_for_def evaluate_with_def bnd_def ret_def lookup_def insert_env_def
      frame_insert_def frame_lookup.simps)

lemma for_round_bindings_persist:
  assumes loop: "for_loop (evaluate_stmt P n) var b F (item # items) lv s = (r, s')"
    and bdy: "evaluate P n b F (frame_insert F var item s) = (rb, sb)"
    and nm: "nm \<in> dom (vars (frames sb ! F))"
    and F: "F < length (frames s)"
  shows "nm \<in> dom (vars (frames s' ! F))"
proof -
  have "extends (evaluate P n b F)"
    unfolding evaluate_def by (rule extends_evaluate_with) (rule extends_evaluate_stmt)
  then have "frames_extend (frame_insert F var item s) sb"
    using bdy by (rule extendsD)
  then have "F < length (frames sb)"
    using F by (simp add: frames_extend_def frame_insert_def)
  moreover have "frames_extend sb s'"
    using loop bdy by (rule for_loop_after_round)
  ultimately show ?thesis
    using nm frames_extend_bound by blast
qed

text \<open>
  Claim C2.  A \<open>for\<close> loop over a List or Tuple that is evaluated in the frame \<open>F\<close>
  binds its variable in \<open>F\<close> itself.  When the sequence is not empty the variable is
  bound in \<open>F\<close> in the state in which the loop ends, however it ends.  A name that is
  bound in \<open>F\<close> when the body of a round has run is still bound in \<open>F\<close> when the loop
  ends, and an assignment in \<open>F\<close> binds its name in \<open>F\<close>.  The loop
  \<open>for x in [1, 2, 3]: y = x\<close> ends with the value \<open>3\<close> in a state where the lookup
  of \<open>x\<close> and of \<open>y\<close> from \<open>F\<close> gives \<open>3\<close>, with no frame more than before the
  loop.
\<close>

theorem for_loop_scope:
  assumes F: "F < length (frames s)"
  shows "(evaluate_stmt P n it F s = (Value iv, s0) \<and> (iv = VList xs \<or> iv = VTuple xs)
            \<and> xs \<noteq> [] \<and> evaluate_stmt P (Suc n) (PiFor var it b) F s = (r, s') \<longrightarrow>
            var \<in> dom (vars (frames s' ! F)))
       \<and> (for_loop (evaluate_stmt P n) var b F (item # items) lv s = (r, s')
            \<and> evaluate P n b F (frame_insert F var item s) = (rb, sb)
            \<and> nm \<in> dom (vars (frames sb ! F)) \<longrightarrow>
            nm \<in> dom (vars (frames s' ! F)))
       \<and> (evaluate_stmt P (Suc n) (PiAssignment y e) F s = (Value v, s') \<longrightarrow>
            vars (frames s' ! F) y = Some v)
       \<and> (\<exists>t. evaluate_stmt P (Suc (Suc (Suc m)))
                 (PiFor ''x'' (PiList [PiNumber 1, PiNumber 2, PiNumber 3])
                    [PiAssignment ''y'' (PiVariable ''x'')]) F s
               = (Value (VNumber 3), t)
             \<and> frame_lookup (frames t) F ''x'' = Some (VNumber 3)
             \<and> frame_lookup (frames t) F ''y'' = Some (VNumber 3)
             \<and> length (frames t) = length (frames s)
             \<and> objects t = objects s)"
proof (intro conjI impI)
  show "var \<in> dom (vars (frames s' ! F))"
    if "evaluate_stmt P n it F s = (Value iv, s0) \<and> (iv = VList xs \<or> iv = VTuple xs)
            \<and> xs \<noteq> [] \<and> evaluate_stmt P (Suc n) (PiFor var it b) F s = (r, s')"
    using that F for_binds_loop_variable by blast
  show "nm \<in> dom (vars (frames s' ! F))"
    if "for_loop (evaluate_stmt P n) var b F (item # items) lv s = (r, s')
            \<and> evaluate P n b F (frame_insert F var item s) = (rb, sb)
            \<and> nm \<in> dom (vars (frames sb ! F))"
    using that F for_round_bindings_persist by blast
  show "vars (frames s' ! F) y = Some v"
    if "evaluate_stmt P (Suc n) (PiAssignment y e) F s = (Value v, s')"
    using that F by (rule assignment_binds)
  show "\<exists>t. evaluate_stmt P (Suc (Suc (Suc m)))
                 (PiFor ''x'' (PiList [PiNumber 1, PiNumber 2, PiNumber 3])
                    [PiAssignment ''y'' (PiVariable ''x'')]) F s
               = (Value (VNumber 3), t)
             \<and> frame_lookup (frames t) F ''x'' = Some (VNumber 3)
             \<and> frame_lookup (frames t) F ''y'' = Some (VNumber 3)
             \<and> length (frames t) = length (frames s)
             \<and> objects t = objects s"
    using F by (rule for_one_two_three)
qed

text \<open>
  In the initial environment, with the global frame for \<open>F\<close>: the loop over
  \<open>[1, 2, 3]\<close>, the rounds for the items \<open>1\<close> and \<open>2\<close>, and the assignment
  \<open>y = 4\<close>.
\<close>

theorem for_loop_scope_witness:
  "''x'' \<in> dom (vars (frames (snd (evaluate_stmt no_primitives (Suc (Suc (Suc 0)))
            (PiFor ''x'' (PiList [PiNumber 1, PiNumber 2, PiNumber 3])
               [PiAssignment ''y'' (PiVariable ''x'')]) 0 (initial_env []))) ! 0))
   \<and> ''y'' \<in> dom (vars (frames
        (snd (for_loop (evaluate_stmt no_primitives (Suc (Suc 0))) ''x''
               [PiAssignment ''y'' (PiVariable ''x'')] 0 [VNumber 1, VNumber 2] VNone
               (initial_env []))) ! 0))
   \<and> vars (frames (snd (evaluate_stmt no_primitives (Suc (Suc 0))
              (PiAssignment ''y'' (PiNumber 4)) 0 (initial_env []))) ! 0) ''y''
        = Some (VNumber 4)
   \<and> (\<exists>t. evaluate_stmt no_primitives (Suc (Suc (Suc 0)))
                 (PiFor ''x'' (PiList [PiNumber 1, PiNumber 2, PiNumber 3])
                    [PiAssignment ''y'' (PiVariable ''x'')]) 0 (initial_env [])
               = (Value (VNumber 3), t)
             \<and> frame_lookup (frames t) 0 ''x'' = Some (VNumber 3)
             \<and> frame_lookup (frames t) 0 ''y'' = Some (VNumber 3)
             \<and> length (frames t) = 1
             \<and> objects t = [])"
proof -
  let ?P = no_primitives
  let ?s = "initial_env []"
  let ?b = "[PiAssignment ''y'' (PiVariable ''x'')]"
  let ?it = "PiList [PiNumber 1, PiNumber 2, PiNumber 3]"
  let ?sb = "snd (evaluate ?P (Suc (Suc 0)) ?b 0 (frame_insert 0 ''x'' (VNumber 1) ?s))"
  have F: "0 < length (frames ?s)"
    by (simp add: initial_env_def)
  note it = list_literal_value [of ?P 0 1 2 3 0 ?s]
  have a: "evaluate_stmt ?P (Suc (Suc 0)) (PiAssignment ''y'' (PiNumber 4)) 0 ?s
      = (Value (VNumber 4), snd (evaluate_stmt ?P (Suc (Suc 0)) (PiAssignment ''y'' (PiNumber 4)) 0 ?s))"
    by (simp add: bnd_def ret_def insert_env_def)
  have l: "length (frames ?s) = 1" "objects ?s = []"
    by (simp_all add: initial_env_def)
  have y: "''y'' \<in> dom (vars (frames ?sb ! 0))"
    by (simp add: evaluate_def evaluate_with_def bnd_def ret_def lookup_def insert_env_def
        frame_insert_def frame_lookup.simps initial_env_def)
  show ?thesis
    using for_loop_scope [OF F, where P = ?P and n = "Suc (Suc 0)" and it = ?it
        and iv = "VList [VNumber 1, VNumber 2, VNumber 3]" and ?s0.0 = ?s
        and xs = "[VNumber 1, VNumber 2, VNumber 3]" and var = "''x''" and b = ?b
        and r = "fst (evaluate_stmt ?P (Suc (Suc (Suc 0))) (PiFor ''x'' ?it ?b) 0 ?s)"
        and s' = "snd (evaluate_stmt ?P (Suc (Suc (Suc 0))) (PiFor ''x'' ?it ?b) 0 ?s)"]
      for_loop_scope [OF F, where P = ?P and n = "Suc (Suc 0)" and var = "''x''" and b = ?b
        and item = "VNumber 1" and items = "[VNumber 2]" and lv = VNone
        and r = "fst (for_loop (evaluate_stmt ?P (Suc (Suc 0))) ''x'' ?b 0
                   [VNumber 1, VNumber 2] VNone ?s)"
        and s' = "snd (for_loop (evaluate_stmt ?P (Suc (Suc 0))) ''x'' ?b 0
                   [VNumber 1, VNumber 2] VNone ?s)"
        and rb = "fst (evaluate ?P (Suc (Suc 0)) ?b 0 (frame_insert 0 ''x'' (VNumber 1) ?s))"
        and sb = ?sb and nm = "''y''"]
      for_loop_scope [OF F, where P = ?P and n = "Suc 0" and y = "''y''" and e = "PiNumber 4"
        and v = "VNumber 4"
        and s' = "snd (evaluate_stmt ?P (Suc (Suc 0)) (PiAssignment ''y'' (PiNumber 4)) 0 ?s)"]
      for_loop_scope [OF F, where P = ?P and m = 0]
      it a l y
    by simp
qed

section \<open>\<open>return\<close> inside a call\<close>

lemma evaluate_snoc_Value:
  assumes "evaluate P n pre env s = (Value x, s1)"
    and "evaluate_stmt P n stmt env s1 = (Value y, s2)"
  shows "evaluate P n (pre @ [stmt]) env s = (Value y, s2)"
proof -
  have "evaluate P n (pre @ [stmt]) env s
      = evaluate_from (evaluate_stmt P n) [stmt] env x s1"
    using assms(1) by (simp add: evaluate_def evaluate_with_def evaluate_from_append_Value)
  also have "\<dots> = (Value y, s2)"
    using assms(2) by (simp add: bnd_Value ret_def)
  finally show ?thesis .
qed

lemma function_call_result:
  assumes "evaluate_stmt P n fn env s = (Value (VFunctionClosure fc), s1)"
    and "eval_elements (evaluate_stmt P n) args env s1 = (Value argv, s2)"
    and "enter_function fc argv s2 = (Value call_env, s3)"
    and "evaluate P n (body (funcdef fc)) call_env s3 = (r, s4)"
    and "r = ReturnException v \<or> r = Value v"
  shows "evaluate_stmt P (Suc n) (PiFunctionCall fn args) env s = (Value v, s4)"
  using assms
  by (auto simp add: evaluate_function_call_def bnd_Value call_function_def run_body_def
      evaluate_def)

lemma method_call_result:
  assumes "evaluate_stmt P n fn env s = (Value (VMethodClosure fc inst), s1)"
    and "eval_elements (evaluate_stmt P n) args env s1 = (Value argv, s2)"
    and "enter_method fc inst argv s2 = (Value call_env, s3)"
    and "evaluate P n (body (funcdef fc)) call_env s3 = (r, s4)"
    and "r = ReturnException v \<or> r = Value v"
  shows "evaluate_stmt P (Suc n) (PiFunctionCall fn args) env s = (Value v, s4)"
  using assms
  by (auto simp add: evaluate_function_call_def bnd_Value call_method_def run_body_def
      evaluate_def)

text \<open>
  Claim C3.  \<open>return\<close> is a statement: inside the body of a function or method it
  stands in the body itself, in a branch of a conditional or in the body of a
  \<open>while\<close> or \<open>for\<close> loop, nested to any depth.  It raises \<open>ReturnException\<close>
  with the value of its expression.  A \<open>ReturnException\<close> raised by
  a statement ends the sequence of statements it is in, whatever follows it; it ends a
  conditional whose branch raised it; it ends a \<open>while\<close> loop and a \<open>for\<close> loop
  whose round raised it, with no further round, and this in any round, since a round
  that ends with a value or with \<open>ContinueException\<close> is followed by the loop on what
  is left.  The call of a function or of a method whose body ends with
  \<open>ReturnException\<close> of \<open>v\<close> has the value \<open>v\<close>, in the state where the exception
  was raised.  A body that ends with a value gives that value to the call: \<open>None\<close>
  for an empty body, the value of the last statement otherwise.
\<close>

theorem return_unwinding:
  "(evaluate P n pre env s = (Value x, s1)
      \<and> evaluate_stmt P n stmt env s1 = (ReturnException v, s2) \<longrightarrow>
      evaluate P n (pre @ stmt # post) env s = (ReturnException v, s2))
   \<and> (evaluate_stmt P n c env s = (Value (VBool b), s1)
      \<and> evaluate P n (if b then t else f) env s1 = (ReturnException v, s2) \<longrightarrow>
      evaluate_stmt P (Suc n) (PiIfThenElse c t f) env s = (ReturnException v, s2))
   \<and> (evaluate_stmt P n c env s = (Value (VBool True), s1)
      \<and> evaluate P n bdy env s1 = (ReturnException v, s2) \<longrightarrow>
      while_loop (Suc k) (evaluate_stmt P n) c bdy env lv s = (ReturnException v, s2))
   \<and> evaluate_stmt P (Suc n) (PiWhile c bdy) env s
        = while_loop n (evaluate_stmt P n) c bdy env VNone s
   \<and> (evaluate_stmt P n fn env s = (Value (VFunctionClosure fc), s1)
      \<and> eval_elements (evaluate_stmt P n) args env s1 = (Value argv, s2)
      \<and> enter_function fc argv s2 = (Value call_env, s3)
      \<and> evaluate P n (body (funcdef fc)) call_env s3 = (r, s4)
      \<and> (r = ReturnException v \<or> r = Value v) \<longrightarrow>
      evaluate_stmt P (Suc n) (PiFunctionCall fn args) env s = (Value v, s4))
   \<and> (evaluate_stmt P n fn env s = (Value (VMethodClosure fc inst), s1)
      \<and> eval_elements (evaluate_stmt P n) args env s1 = (Value argv, s2)
      \<and> enter_method fc inst argv s2 = (Value call_env, s3)
      \<and> evaluate P n (body (funcdef fc)) call_env s3 = (r, s4)
      \<and> (r = ReturnException v \<or> r = Value v) \<longrightarrow>
      evaluate_stmt P (Suc n) (PiFunctionCall fn args) env s = (Value v, s4))
   \<and> evaluate P n [] env s = (Value VNone, s)
   \<and> (evaluate P n pre env s = (Value x, s1) \<and> evaluate_stmt P n stmt env s1 = (Value y, s2) \<longrightarrow>
      evaluate P n (pre @ [stmt]) env s = (Value y, s2))
   \<and> (evaluate_stmt P n c env s = (Value (VBool True), s1)
      \<and> evaluate P n bdy env s1 = (Value x, s2) \<longrightarrow>
      while_loop (Suc k) (evaluate_stmt P n) c bdy env lv s
        = while_loop k (evaluate_stmt P n) c bdy env x s2)
   \<and> (evaluate_stmt P n c env s = (Value (VBool True), s1)
      \<and> evaluate P n bdy env s1 = (ContinueException, s2) \<longrightarrow>
      while_loop (Suc k) (evaluate_stmt P n) c bdy env lv s
        = while_loop k (evaluate_stmt P n) c bdy env lv s2)
   \<and> (evaluate_stmt P n c env s = (Value iv, s1) \<and> (iv = VList items \<or> iv = VTuple items) \<longrightarrow>
      evaluate_stmt P (Suc n) (PiFor var c bdy) env s
        = for_loop (evaluate_stmt P n) var bdy env items VNone s1)
   \<and> (evaluate P n bdy env (frame_insert env var item s) = (ReturnException v, s2) \<longrightarrow>
      for_loop (evaluate_stmt P n) var bdy env (item # items) lv s = (ReturnException v, s2))
   \<and> (evaluate P n bdy env (frame_insert env var item s) = (Value x, s2) \<longrightarrow>
      for_loop (evaluate_stmt P n) var bdy env (item # items) lv s
        = for_loop (evaluate_stmt P n) var bdy env items x s2)
   \<and> (evaluate P n bdy env (frame_insert env var item s) = (ContinueException, s2) \<longrightarrow>
      for_loop (evaluate_stmt P n) var bdy env (item # items) lv s
        = for_loop (evaluate_stmt P n) var bdy env items lv s2)
   \<and> (evaluate_stmt P n e env s = (Value v, s2) \<longrightarrow>
      evaluate_stmt P (Suc n) (PiReturn e) env s = (ReturnException v, s2))"
proof -
  have 1: "evaluate P n pre env s = (Value x, s1)
      \<and> evaluate_stmt P n stmt env s1 = (ReturnException v, s2) \<longrightarrow>
      evaluate P n (pre @ stmt # post) env s = (ReturnException v, s2)"
    using evaluate_signal [where r = "ReturnException v"] by simp
  have 2: "evaluate_stmt P n c env s = (Value (VBool b), s1)
      \<and> evaluate P n (if b then t else f) env s1 = (ReturnException v, s2) \<longrightarrow>
      evaluate_stmt P (Suc n) (PiIfThenElse c t f) env s = (ReturnException v, s2)"
    using if_branch_result by blast
  have 3: "evaluate_stmt P n c env s = (Value (VBool True), s1)
      \<and> evaluate P n bdy env s1 = (ReturnException v, s2) \<longrightarrow>
      while_loop (Suc k) (evaluate_stmt P n) c bdy env lv s = (ReturnException v, s2)"
    using while_round_return by blast
  have 4: "evaluate_stmt P (Suc n) (PiWhile c bdy) env s
        = while_loop n (evaluate_stmt P n) c bdy env VNone s"
    by (rule while_entry)
  have 5: "evaluate_stmt P n fn env s = (Value (VFunctionClosure fc), s1)
      \<and> eval_elements (evaluate_stmt P n) args env s1 = (Value argv, s2)
      \<and> enter_function fc argv s2 = (Value call_env, s3)
      \<and> evaluate P n (body (funcdef fc)) call_env s3 = (r, s4)
      \<and> (r = ReturnException v \<or> r = Value v) \<longrightarrow>
      evaluate_stmt P (Suc n) (PiFunctionCall fn args) env s = (Value v, s4)"
    using function_call_result by blast
  have 6: "evaluate_stmt P n fn env s = (Value (VMethodClosure fc inst), s1)
      \<and> eval_elements (evaluate_stmt P n) args env s1 = (Value argv, s2)
      \<and> enter_method fc inst argv s2 = (Value call_env, s3)
      \<and> evaluate P n (body (funcdef fc)) call_env s3 = (r, s4)
      \<and> (r = ReturnException v \<or> r = Value v) \<longrightarrow>
      evaluate_stmt P (Suc n) (PiFunctionCall fn args) env s = (Value v, s4)"
    using method_call_result by blast
  have 7: "evaluate P n [] env s = (Value VNone, s)"
    by (rule evaluate_Nil)
  have 8: "evaluate P n pre env s = (Value x, s1) \<and> evaluate_stmt P n stmt env s1 = (Value y, s2) \<longrightarrow>
      evaluate P n (pre @ [stmt]) env s = (Value y, s2)"
    using evaluate_snoc_Value by blast
  have 9: "evaluate_stmt P n c env s = (Value (VBool True), s1)
      \<and> evaluate P n bdy env s1 = (Value x, s2) \<longrightarrow>
      while_loop (Suc k) (evaluate_stmt P n) c bdy env lv s
        = while_loop k (evaluate_stmt P n) c bdy env x s2"
    by (intro impI conjI; (elim conjE)?) (rule while_round_next(1); assumption)+
  have 10: "evaluate_stmt P n c env s = (Value (VBool True), s1)
      \<and> evaluate P n bdy env s1 = (ContinueException, s2) \<longrightarrow>
      while_loop (Suc k) (evaluate_stmt P n) c bdy env lv s
        = while_loop k (evaluate_stmt P n) c bdy env lv s2"
    by (intro impI conjI; (elim conjE)?) (rule while_round_next(2); assumption)+
  have 11: "evaluate_stmt P n c env s = (Value iv, s1) \<and> (iv = VList items \<or> iv = VTuple items) \<longrightarrow>
      evaluate_stmt P (Suc n) (PiFor var c bdy) env s
        = for_loop (evaluate_stmt P n) var bdy env items VNone s1"
    by (intro impI conjI; (elim conjE)?) (rule for_entry; assumption)+
  have 12: "evaluate P n bdy env (frame_insert env var item s) = (ReturnException v, s2) \<longrightarrow>
      for_loop (evaluate_stmt P n) var bdy env (item # items) lv s = (ReturnException v, s2)"
    by (intro impI conjI; (elim conjE)?) (rule for_round_return; assumption)+
  have 13: "evaluate P n bdy env (frame_insert env var item s) = (Value x, s2) \<longrightarrow>
      for_loop (evaluate_stmt P n) var bdy env (item # items) lv s
        = for_loop (evaluate_stmt P n) var bdy env items x s2"
    by (intro impI conjI; (elim conjE)?) (rule for_round_next(1); assumption)+
  have 14: "evaluate P n bdy env (frame_insert env var item s) = (ContinueException, s2) \<longrightarrow>
      for_loop (evaluate_stmt P n) var bdy env (item # items) lv s
        = for_loop (evaluate_stmt P n) var bdy env items lv s2"
    by (intro impI conjI; (elim conjE)?) (rule for_round_next(2); assumption)+
  have 15: "evaluate_stmt P n e env s = (Value v, s2) \<longrightarrow>
      evaluate_stmt P (Suc n) (PiReturn e) env s = (ReturnException v, s2)"
    by (simp add: bnd_Value)
  show ?thesis
    by (intro conjI) (rule 1 2 3 4 5 6 7 8 9 10 11 12 13 14 15)+
qed

text \<open>
  The call \<open>f()\<close>, where \<open>return 1\<close> is inside a conditional inside a loop: the
  result is \<open>1\<close> and the call frame is left empty, so none of the assignments that
  follow in the branch and in the round has run, and \<open>return 3\<close> after the loop has
  not run.  The call \<open>g()\<close> gives the value of the last statement, \<open>h()\<close> gives
  \<open>None\<close>, and the method call \<open>o.m()\<close> gives the returned \<open>1\<close>.  The call
  \<open>k()\<close>, where \<open>return 5\<close> is inside \<open>for x in [1, 2]\<close>, gives \<open>5\<close> with \<open>x\<close>
  left at \<open>1\<close>; the call \<open>w()\<close>, where the loop returns in its second round, gives
  \<open>8\<close>.
\<close>

theorem return_unwinding_witness:
  "evaluate_stmt no_primitives (Suc (Suc (Suc (Suc (Suc 0)))))
      (PiFunctionCall (PiVariable ''f'') []) 0 function_store
     = (Value (VNumber 1),
        function_store\<lparr>frames := frames function_store @ [\<lparr>vars = Map.empty, parent = Some 0\<rparr>]\<rparr>)
   \<and> evaluate_stmt no_primitives (Suc (Suc (Suc 0)))
      (PiFunctionCall (PiVariable ''g'') []) 0 function_store
     = (Value (VNumber 7),
        function_store\<lparr>frames := frames function_store @ [\<lparr>vars = Map.empty, parent = Some 0\<rparr>]\<rparr>)
   \<and> evaluate_stmt no_primitives (Suc (Suc 0))
      (PiFunctionCall (PiVariable ''h'') []) 0 function_store
     = (Value VNone,
        function_store\<lparr>frames := frames function_store @ [\<lparr>vars = Map.empty, parent = Some 0\<rparr>]\<rparr>)
   \<and> fst (evaluate_stmt no_primitives (Suc (Suc (Suc 0)))
      (PiFunctionCall (PiAttribute (PiVariable ''o'') ''m'') []) 0 example_store)
     = Value (VNumber 1)
   \<and> evaluate_stmt no_primitives (Suc (Suc (Suc (Suc 0))))
      (PiFunctionCall (PiVariable ''k'') []) 0 loop_store
     = (Value (VNumber 5),
        frame_insert (Suc 0) ''x'' (VNumber 1)
          (loop_store\<lparr>frames := frames loop_store @ [\<lparr>vars = Map.empty, parent = Some 0\<rparr>]\<rparr>))
   \<and> evaluate_stmt no_primitives (Suc (Suc (Suc (Suc (Suc 0)))))
      (PiFunctionCall (PiVariable ''w'') []) 0 loop_store
     = (Value (VNumber 8),
        frame_insert (Suc 0) ''c'' (VBool True)
          (frame_insert (Suc 0) ''c'' (VBool False)
            (loop_store\<lparr>frames := frames loop_store @ [\<lparr>vars = Map.empty, parent = Some 0\<rparr>]\<rparr>)))"
proof -
  let ?P = no_primitives
  let ?s = function_store
  let ?t = "function_store\<lparr>frames := frames function_store @ [\<lparr>vars = Map.empty, parent = Some 0\<rparr>]\<rparr>"
  let ?inner = "[PiReturn (PiNumber 1), PiAssignment ''x'' (PiNumber 2)]"
  let ?cond = "PiIfThenElse (PiBool True) ?inner []"
  let ?round = "[?cond, PiAssignment ''z'' (PiNumber 5)]"
  let ?loop = "PiWhile (PiBool True) ?round"
  note sequence = return_unwinding [THEN conjunct1, rule_format, OF conjI]
  note conditional = return_unwinding [THEN conjunct2, THEN conjunct1, rule_format, OF conjI]
  note round = return_unwinding [THEN conjunct2, THEN conjunct2, THEN conjunct1, rule_format,
      OF conjI]
  note loop = return_unwinding [THEN conjunct2, THEN conjunct2, THEN conjunct2, THEN conjunct1]
  note function_call = return_unwinding [THEN conjunct2, THEN conjunct2, THEN conjunct2,
      THEN conjunct2, THEN conjunct1, rule_format]
  note method_call = return_unwinding [THEN conjunct2, THEN conjunct2, THEN conjunct2,
      THEN conjunct2, THEN conjunct2, THEN conjunct1, rule_format]
  note empty = return_unwinding [THEN conjunct2, THEN conjunct2, THEN conjunct2,
      THEN conjunct2, THEN conjunct2, THEN conjunct2, THEN conjunct1]
  note final = return_unwinding [THEN conjunct2, THEN conjunct2, THEN conjunct2,
      THEN conjunct2, THEN conjunct2, THEN conjunct2, THEN conjunct2, THEN conjunct1,
      rule_format, OF conjI]
  note next_round = return_unwinding [THEN conjunct2, THEN conjunct2, THEN conjunct2,
      THEN conjunct2, THEN conjunct2, THEN conjunct2, THEN conjunct2, THEN conjunct2,
      THEN conjunct1, rule_format, OF conjI]
  note for_start = return_unwinding [THEN conjunct2, THEN conjunct2, THEN conjunct2,
      THEN conjunct2, THEN conjunct2, THEN conjunct2, THEN conjunct2, THEN conjunct2,
      THEN conjunct2, THEN conjunct2, THEN conjunct1, rule_format, OF conjI]
  note for_return = return_unwinding [THEN conjunct2, THEN conjunct2, THEN conjunct2,
      THEN conjunct2, THEN conjunct2, THEN conjunct2, THEN conjunct2, THEN conjunct2,
      THEN conjunct2, THEN conjunct2, THEN conjunct2, THEN conjunct1, rule_format]
  have r1: "evaluate_stmt ?P (Suc (Suc 0)) (PiReturn (PiNumber 1)) (Suc 0) ?t
      = (ReturnException (VNumber 1), ?t)"
    by (simp add: bnd_def ret_def)
  have i1: "evaluate ?P (Suc (Suc 0)) ?inner (Suc 0) ?t = (ReturnException (VNumber 1), ?t)"
    using sequence [OF empty r1, where post = "[PiAssignment ''x'' (PiNumber 2)]"]
    by simp
  have c1: "evaluate_stmt ?P (Suc (Suc (Suc 0))) ?cond (Suc 0) ?t = (ReturnException (VNumber 1), ?t)"
    by (rule conditional [where b = True and ?s1.0 = ?t]) (simp_all add: ret_def i1)
  have b1: "evaluate ?P (Suc (Suc (Suc 0))) ?round (Suc 0) ?t = (ReturnException (VNumber 1), ?t)"
    using sequence [OF empty c1, where post = "[PiAssignment ''z'' (PiNumber 5)]"]
    by (simp only: append.simps)
  have w1: "evaluate_stmt ?P (Suc (Suc (Suc (Suc 0)))) ?loop (Suc 0) ?t
      = (ReturnException (VNumber 1), ?t)"
    unfolding loop
    by (rule round [where ?s1.0 = ?t]) (simp_all add: ret_def b1)
  have f1: "evaluate ?P (Suc (Suc (Suc (Suc 0)))) (body nested_return_function) (Suc 0) ?t
      = (ReturnException (VNumber 1), ?t)"
    using sequence [OF empty w1, where post = "[PiReturn (PiNumber 3)]"]
    by (simp only: append.simps nested_return_function_def funcdef.sel)
  have enter: "enter_function (FunctionClosure fd 0) [] ?s = (Value (Suc 0), ?t)"
    if "arg_names fd = []" "vararg fd = None" for fd
    using that
    by (simp add: enter_function_def new_frame_def bnd_def ret_def declared_vararg_def
        function_store_def)
  have f: "evaluate_stmt ?P (Suc (Suc (Suc (Suc (Suc 0))))) (PiFunctionCall (PiVariable ''f'') []) 0 ?s
      = (Value (VNumber 1), ?t)"
  proof (rule function_call [where fc = "FunctionClosure nested_return_function 0" and ?s1.0 = ?s
        and argv = "[]" and ?s2.0 = ?s and call_env = "Suc 0" and ?s3.0 = ?t
        and r = "ReturnException (VNumber 1)"], intro conjI)
    show "evaluate_stmt ?P (Suc (Suc (Suc (Suc 0)))) (PiVariable ''f'') 0 ?s
        = (Value (VFunctionClosure (FunctionClosure nested_return_function 0)), ?s)"
      by (simp add: lookup_def function_store_def frame_lookup.simps)
    show "eval_elements (evaluate_stmt ?P (Suc (Suc (Suc (Suc 0))))) [] 0 ?s = (Value [], ?s)"
      by (simp add: ret_def)
    show "enter_function (FunctionClosure nested_return_function 0) [] ?s = (Value (Suc 0), ?t)"
      by (rule enter) (simp_all add: nested_return_function_def)
    show "evaluate ?P (Suc (Suc (Suc (Suc 0))))
        (body (funcdef (FunctionClosure nested_return_function 0))) (Suc 0) ?t
        = (ReturnException (VNumber 1), ?t)"
      using f1 by simp
    show "ReturnException (VNumber 1) = ReturnException (VNumber 1)
        \<or> ReturnException (VNumber 1) = Value (VNumber 1)"
      by simp
  qed
  let ?g = "FuncDef ''g'' [] None [PiNumber 4, PiNumber 7]"
  have g1: "evaluate ?P (Suc (Suc 0)) [PiNumber 4, PiNumber 7] (Suc 0) ?t = (Value (VNumber 7), ?t)"
    using final [where P = ?P and n = "Suc (Suc 0)" and pre = "[PiNumber 4]" and env = "Suc 0"
        and s = ?t and x = "VNumber 4" and ?s1.0 = ?t and stmt = "PiNumber 7"
        and y = "VNumber 7" and ?s2.0 = ?t]
    by (simp add: evaluate_def evaluate_with_def bnd_def ret_def)
  have g: "evaluate_stmt ?P (Suc (Suc (Suc 0))) (PiFunctionCall (PiVariable ''g'') []) 0 ?s
      = (Value (VNumber 7), ?t)"
  proof (rule function_call [where fc = "FunctionClosure ?g 0" and ?s1.0 = ?s
        and argv = "[]" and ?s2.0 = ?s and call_env = "Suc 0" and ?s3.0 = ?t
        and r = "Value (VNumber 7)"], intro conjI)
    show "evaluate_stmt ?P (Suc (Suc 0)) (PiVariable ''g'') 0 ?s
        = (Value (VFunctionClosure (FunctionClosure ?g 0)), ?s)"
      by (simp add: lookup_def function_store_def frame_lookup.simps)
    show "eval_elements (evaluate_stmt ?P (Suc (Suc 0))) [] 0 ?s = (Value [], ?s)"
      by (simp add: ret_def)
    show "enter_function (FunctionClosure ?g 0) [] ?s = (Value (Suc 0), ?t)"
      by (rule enter) simp_all
    show "evaluate ?P (Suc (Suc 0)) (body (funcdef (FunctionClosure ?g 0))) (Suc 0) ?t
        = (Value (VNumber 7), ?t)"
      using g1 by simp
    show "Value (VNumber 7) = ReturnException (VNumber 7) \<or> Value (VNumber 7) = Value (VNumber 7)"
      by simp
  qed
  let ?h = "FuncDef ''h'' [] None []"
  have h: "evaluate_stmt ?P (Suc (Suc 0)) (PiFunctionCall (PiVariable ''h'') []) 0 ?s
      = (Value VNone, ?t)"
  proof (rule function_call [where fc = "FunctionClosure ?h 0" and ?s1.0 = ?s
        and argv = "[]" and ?s2.0 = ?s and call_env = "Suc 0" and ?s3.0 = ?t
        and r = "Value VNone"], intro conjI)
    show "evaluate_stmt ?P (Suc 0) (PiVariable ''h'') 0 ?s
        = (Value (VFunctionClosure (FunctionClosure ?h 0)), ?s)"
      by (simp add: lookup_def function_store_def frame_lookup.simps)
    show "eval_elements (evaluate_stmt ?P (Suc 0)) [] 0 ?s = (Value [], ?s)"
      by (simp add: ret_def)
    show "enter_function (FunctionClosure ?h 0) [] ?s = (Value (Suc 0), ?t)"
      by (rule enter) simp_all
    show "evaluate ?P (Suc 0) (body (funcdef (FunctionClosure ?h 0))) (Suc 0) ?t = (Value VNone, ?t)"
      using empty by simp
    show "Value VNone = ReturnException VNone \<or> Value VNone = Value VNone"
      by simp
  qed
  let ?m = "FunctionClosure (FuncDef ''m'' [''self''] None [PiReturn (PiNumber 1)]) 1"
  let ?u = "snd (enter_method ?m 0 [] example_store)"
  have em: "enter_method ?m 0 [] example_store = (Value (Suc (Suc 0)), ?u)"
    by (simp add: enter_method_def new_frame_def bnd_def ret_def declared_vararg_def
        example_store_def bind_receiver_def insert_env_def)
  have rm: "evaluate_stmt ?P (Suc (Suc 0)) (PiReturn (PiNumber 1)) (Suc (Suc 0)) ?u
      = (ReturnException (VNumber 1), ?u)"
    by (simp add: bnd_def ret_def)
  have m1: "evaluate ?P (Suc (Suc 0)) [PiReturn (PiNumber 1)] (Suc (Suc 0)) ?u
      = (ReturnException (VNumber 1), ?u)"
    using sequence [OF empty rm, where post = "[]"] by simp
  have m: "evaluate_stmt ?P (Suc (Suc (Suc 0)))
      (PiFunctionCall (PiAttribute (PiVariable ''o'') ''m'') []) 0 example_store
      = (Value (VNumber 1), ?u)"
  proof (rule method_call [where fc = ?m and inst = 0 and ?s1.0 = example_store
        and argv = "[]" and ?s2.0 = example_store and call_env = "Suc (Suc 0)" and ?s3.0 = ?u
        and r = "ReturnException (VNumber 1)"], intro conjI)
    show "evaluate_stmt ?P (Suc (Suc 0)) (PiAttribute (PiVariable ''o'') ''m'') 0 example_store
        = (Value (VMethodClosure ?m 0), example_store)"
      by (simp add: bnd_def lookup_def example_store_def frame_lookup.simps get_attribute_def
          example_class_def)
    show "eval_elements (evaluate_stmt ?P (Suc (Suc 0))) [] 0 example_store
        = (Value [], example_store)"
      by (simp add: ret_def)
    show "enter_method ?m 0 [] example_store = (Value (Suc (Suc 0)), ?u)"
      by (rule em)
    show "evaluate ?P (Suc (Suc 0)) (body (funcdef ?m)) (Suc (Suc 0)) ?u = (ReturnException (VNumber 1), ?u)"
      using m1 by simp
    show "ReturnException (VNumber 1) = ReturnException (VNumber 1)
        \<or> ReturnException (VNumber 1) = Value (VNumber 1)"
      by simp
  qed
  let ?l = loop_store
  let ?c = "loop_store\<lparr>frames := frames loop_store @ [\<lparr>vars = Map.empty, parent = Some 0\<rparr>]\<rparr>"
  have enter_l: "enter_function (FunctionClosure fd 0) [] ?l = (Value (Suc 0), ?c)"
    if "arg_names fd = []" "vararg fd = None" for fd
    using that
    by (simp add: enter_function_def new_frame_def bnd_def ret_def declared_vararg_def
        loop_store_def)
  let ?kb = "[PiReturn (PiNumber 5)]"
  let ?kit = "PiList [PiNumber 1, PiNumber 2]"
  let ?c1 = "frame_insert (Suc 0) ''x'' (VNumber 1) ?c"
  have rk: "evaluate_stmt ?P (Suc (Suc 0)) (PiReturn (PiNumber 5)) (Suc 0) ?c1
      = (ReturnException (VNumber 5), ?c1)"
    by (simp add: bnd_def ret_def)
  have bk: "evaluate ?P (Suc (Suc 0)) ?kb (Suc 0) ?c1 = (ReturnException (VNumber 5), ?c1)"
    using sequence [OF empty rk, where post = "[]"] by simp
  have lk: "for_loop (evaluate_stmt ?P (Suc (Suc 0))) ''x'' ?kb (Suc 0)
        [VNumber 1, VNumber 2] VNone ?c = (ReturnException (VNumber 5), ?c1)"
    using bk by (rule for_return)
  have ik: "evaluate_stmt ?P (Suc (Suc 0)) ?kit (Suc 0) ?c
      = (Value (VList [VNumber 1, VNumber 2]), ?c)"
    by (simp add: bnd_def ret_def)
  have fk: "evaluate_stmt ?P (Suc (Suc (Suc 0))) (PiFor ''x'' ?kit ?kb) (Suc 0) ?c
      = (ReturnException (VNumber 5), ?c1)"
    using for_start [OF ik, where items = "[VNumber 1, VNumber 2]" and var = "''x''"
        and bdy = ?kb] lk
    by simp
  have k1: "evaluate ?P (Suc (Suc (Suc 0))) (body return_in_for_function) (Suc 0) ?c
      = (ReturnException (VNumber 5), ?c1)"
    using sequence [OF empty fk, where post = "[PiNumber 6]"]
    by (simp only: append.simps return_in_for_function_def funcdef.sel)
  have k: "evaluate_stmt ?P (Suc (Suc (Suc (Suc 0)))) (PiFunctionCall (PiVariable ''k'') []) 0 ?l
      = (Value (VNumber 5), ?c1)"
  proof (rule function_call [where fc = "FunctionClosure return_in_for_function 0"
        and ?s1.0 = ?l and argv = "[]" and ?s2.0 = ?l and call_env = "Suc 0" and ?s3.0 = ?c
        and r = "ReturnException (VNumber 5)"], intro conjI)
    show "evaluate_stmt ?P (Suc (Suc (Suc 0))) (PiVariable ''k'') 0 ?l
        = (Value (VFunctionClosure (FunctionClosure return_in_for_function 0)), ?l)"
      by (simp add: lookup_def loop_store_def frame_lookup.simps)
    show "eval_elements (evaluate_stmt ?P (Suc (Suc (Suc 0)))) [] 0 ?l = (Value [], ?l)"
      by (simp add: ret_def)
    show "enter_function (FunctionClosure return_in_for_function 0) [] ?l = (Value (Suc 0), ?c)"
      by (rule enter_l) (simp_all add: return_in_for_function_def)
    show "evaluate ?P (Suc (Suc (Suc 0)))
        (body (funcdef (FunctionClosure return_in_for_function 0))) (Suc 0) ?c
        = (ReturnException (VNumber 5), ?c1)"
      using k1 by simp
    show "ReturnException (VNumber 5) = ReturnException (VNumber 5)
        \<or> ReturnException (VNumber 5) = Value (VNumber 5)"
      by simp
  qed
  let ?a0 = "PiAssignment ''c'' (PiBool False)"
  let ?a1 = "PiAssignment ''c'' (PiBool True)"
  let ?wif = "PiIfThenElse (PiVariable ''c'') [PiReturn (PiNumber 8)] []"
  let ?wb = "[?wif, ?a1]"
  let ?wl = "PiWhile (PiBool True) ?wb"
  let ?d1 = "frame_insert (Suc 0) ''c'' (VBool False) ?c"
  let ?d2 = "frame_insert (Suc 0) ''c'' (VBool True) ?d1"
  have w0: "evaluate ?P (Suc (Suc (Suc (Suc 0)))) [?a0] (Suc 0) ?c = (Value (VBool False), ?d1)"
    by (simp add: evaluate_def evaluate_with_def bnd_def ret_def insert_env_def)
  have cond1: "evaluate_stmt ?P (Suc (Suc (Suc 0))) (PiBool True) (Suc 0) ?d1
      = (Value (VBool True), ?d1)"
    by (simp add: ret_def)
  have cond2: "evaluate_stmt ?P (Suc (Suc (Suc 0))) (PiBool True) (Suc 0) ?d2
      = (Value (VBool True), ?d2)"
    by (simp add: ret_def)
  have round1: "evaluate ?P (Suc (Suc (Suc 0))) ?wb (Suc 0) ?d1 = (Value (VBool True), ?d2)"
    by (simp add: evaluate_def evaluate_with_def bnd_def ret_def insert_env_def lookup_def
        frame_insert_def loop_store_def frame_lookup.simps check_type_VBool_def)
  have c2: "evaluate_stmt ?P (Suc (Suc 0)) (PiVariable ''c'') (Suc 0) ?d2
      = (Value (VBool True), ?d2)"
    by (simp add: lookup_def frame_insert_def loop_store_def frame_lookup.simps)
  have r8: "evaluate_stmt ?P (Suc (Suc 0)) (PiReturn (PiNumber 8)) (Suc 0) ?d2
      = (ReturnException (VNumber 8), ?d2)"
    by (simp add: bnd_def ret_def)
  have b8: "evaluate ?P (Suc (Suc 0)) (if True then [PiReturn (PiNumber 8)] else []) (Suc 0) ?d2
      = (ReturnException (VNumber 8), ?d2)"
    using sequence [OF empty r8, where post = "[]"] by simp
  have i8: "evaluate_stmt ?P (Suc (Suc (Suc 0))) ?wif (Suc 0) ?d2
      = (ReturnException (VNumber 8), ?d2)"
    using c2 b8 by (rule conditional)
  have round2: "evaluate ?P (Suc (Suc (Suc 0))) ?wb (Suc 0) ?d2
      = (ReturnException (VNumber 8), ?d2)"
    using sequence [OF empty i8, where post = "[?a1]"] by (simp only: append.simps)
  have l2: "while_loop (Suc (Suc 0)) (evaluate_stmt ?P (Suc (Suc (Suc 0)))) (PiBool True) ?wb
        (Suc 0) (VBool True) ?d2 = (ReturnException (VNumber 8), ?d2)"
    using cond2 round2 by (rule round)
  have l1: "while_loop (Suc (Suc (Suc 0))) (evaluate_stmt ?P (Suc (Suc (Suc 0)))) (PiBool True) ?wb
        (Suc 0) VNone ?d1 = (ReturnException (VNumber 8), ?d2)"
    using next_round [OF cond1 round1, where k = "Suc (Suc 0)" and lv = VNone] l2
    by simp
  have wl: "evaluate_stmt ?P (Suc (Suc (Suc (Suc 0)))) ?wl (Suc 0) ?d1
      = (ReturnException (VNumber 8), ?d2)"
    unfolding loop by (rule l1)
  have w1: "evaluate ?P (Suc (Suc (Suc (Suc 0)))) (body return_in_second_round_function)
        (Suc 0) ?c = (ReturnException (VNumber 8), ?d2)"
    using sequence [OF w0 wl, where post = "[PiNumber 9]"]
    by (simp only: append.simps return_in_second_round_function_def funcdef.sel)
  have w: "evaluate_stmt ?P (Suc (Suc (Suc (Suc (Suc 0))))) (PiFunctionCall (PiVariable ''w'') []) 0 ?l
      = (Value (VNumber 8), ?d2)"
  proof (rule function_call [where fc = "FunctionClosure return_in_second_round_function 0"
        and ?s1.0 = ?l and argv = "[]" and ?s2.0 = ?l and call_env = "Suc 0" and ?s3.0 = ?c
        and r = "ReturnException (VNumber 8)"], intro conjI)
    show "evaluate_stmt ?P (Suc (Suc (Suc (Suc 0)))) (PiVariable ''w'') 0 ?l
        = (Value (VFunctionClosure (FunctionClosure return_in_second_round_function 0)), ?l)"
      by (simp add: lookup_def loop_store_def frame_lookup.simps)
    show "eval_elements (evaluate_stmt ?P (Suc (Suc (Suc (Suc 0))))) [] 0 ?l = (Value [], ?l)"
      by (simp add: ret_def)
    show "enter_function (FunctionClosure return_in_second_round_function 0) [] ?l
        = (Value (Suc 0), ?c)"
      by (rule enter_l) (simp_all add: return_in_second_round_function_def)
    show "evaluate ?P (Suc (Suc (Suc (Suc 0))))
        (body (funcdef (FunctionClosure return_in_second_round_function 0))) (Suc 0) ?c
        = (ReturnException (VNumber 8), ?d2)"
      using w1 by simp
    show "ReturnException (VNumber 8) = ReturnException (VNumber 8)
        \<or> ReturnException (VNumber 8) = Value (VNumber 8)"
      by simp
  qed
  show ?thesis
    using f g h m k w by simp
qed

end
